theory Spec2Isabelle
  imports Main "HOL-Library.Sublist"
begin

section \<open>RELogger: the C and the C++ variant, embedded\<close>

text \<open>
  The repository holds one logger twice: \<^verbatim>\<open>src/c/RELogger/relogger.c\<close> and
  \<^verbatim>\<open>src/cpp/RELogger/relogger.cpp\<close>. Both keep a global threshold and an optional
  file sink, and both write a coloured line to the console and a plain line to the file.

  Each source function becomes a function on a pair: the logger's own globals and the
  environment it acts on (the console streams, the table of open streams with their
  buffers, the files on disk, the clock, and the history of calls on the mutex).

  Build configuration. The body of \<^verbatim>\<open>RELogger_Log\<close> is compiled only under
  \<^verbatim>\<open>#ifdef DEBUG\<close>, the body of \<^verbatim>\<open>RELogger::Log\<close> only under \<^verbatim>\<open>#ifndef NDEBUG\<close>;
  both functions take that switch as their first argument. The other switches are fixed:
  a POSIX build of the C file (\<^verbatim>\<open>fopen\<close>, \<^verbatim>\<open>strerror\<close>, \<^verbatim>\<open>localtime_r\<close>, a statically
  initialised \<^verbatim>\<open>pthread_mutex_t\<close>, \<^verbatim>\<open>NO_THREADS\<close> undefined).
\<close>

subsection \<open>Severities\<close>

text \<open>
  \<^verbatim>\<open>typedef enum { LogLevel_Trace, ..., LogLevel_Fatal } LogLevel;\<close> and
  \<^verbatim>\<open>enum class LogLevel { Trace, ..., Fatal };\<close>: the enumerators are 0 to 5, and a
  value of the type is an integer that may lie outside them (both \<^verbatim>\<open>switch\<close>es have a
  fall-through for that). Severities are compared as integers.
\<close>

type_synonym LogLevel = int

definition LogLevel_Trace :: LogLevel where "LogLevel_Trace = 0"
definition LogLevel_Debug :: LogLevel where "LogLevel_Debug = 1"
definition LogLevel_Info :: LogLevel where "LogLevel_Info = 2"
definition LogLevel_Warn :: LogLevel where "LogLevel_Warn = 3"
definition LogLevel_Error :: LogLevel where "LogLevel_Error = 4"
definition LogLevel_Fatal :: LogLevel where "LogLevel_Fatal = 5"

subsection \<open>Characters and number formatting\<close>

definition ESC :: char where "ESC = CHR 0x1B"
definition NL :: char where "NL = CHR 0x0A"
definition QUOTE :: char where "QUOTE = CHR 0x27"

text \<open>\<^verbatim>\<open>#define RESET_COLOR "\033[0m"\<close>\<close>

definition RESET_COLOR :: string where "RESET_COLOR = ESC # ''[0m''"

text \<open>The decimal digit \<open>d\<close>, for \<open>d < 10\<close>; it is only ever asked for such a \<open>d\<close>.\<close>

definition digit_char :: "nat \<Rightarrow> char" where
  "digit_char d = ''0123456789'' ! d"

text \<open>The conversion \<^verbatim>\<open>%d\<close> (and \<^verbatim>\<open>operator<<(int)\<close>): decimal, a minus sign for a
  negative value, no padding.\<close>

fun dec_nat :: "nat \<Rightarrow> string" where
  "dec_nat n = (if n < 10 then [digit_char n] else dec_nat (n div 10) @ [digit_char (n mod 10)])"

declare dec_nat.simps [simp del]

definition dec_int :: "int \<Rightarrow> string" where
  "dec_int i = (if i < 0 then CHR ''-'' # dec_nat (nat (- i)) else dec_nat (nat i))"

text \<open>The fields of \<^verbatim>\<open>struct tm\<close> that the format \<^verbatim>\<open>"%H:%M:%S"\<close> reads, as
  \<^verbatim>\<open>localtime_r\<close> fills them: hour 0..23, minute 0..59, second 0..60.\<close>

record tm =
  tm_hour :: nat
  tm_min :: nat
  tm_sec :: nat

text \<open>\<^verbatim>\<open>%H\<close>, \<^verbatim>\<open>%M\<close> and \<^verbatim>\<open>%S\<close> each print two decimal digits, zero padded.\<close>

definition two_digits :: "nat \<Rightarrow> string" where
  "two_digits n = [digit_char (n div 10 mod 10), digit_char (n mod 10)]"

text \<open>\<^verbatim>\<open>strftime(timeStr, sizeof(timeStr), "%H:%M:%S", &tm)\<close> and
  \<^verbatim>\<open>oss << std::put_time(&tm, "%H:%M:%S")\<close>.\<close>

definition strftime_HMS :: "tm \<Rightarrow> string" where
  "strftime_HMS t = two_digits (tm_hour t) @ '':'' @ two_digits (tm_min t) @ '':'' @ two_digits (tm_sec t)"

subsection \<open>The environment\<close>

text \<open>
  An open stream (\<^verbatim>\<open>FILE\<close>, or the \<^verbatim>\<open>filebuf\<close> of an \<^verbatim>\<open>ofstream\<close>): the path it
  writes to and the characters written to it that have not yet reached the disk.
\<close>

record FILE =
  f_path :: string
  f_buffer :: string

datatype mutex_op = MLock | MUnlock | MDestroy

text \<open>
  \<^item> \<open>out_chars\<close>, \<open>err_chars\<close>: everything written to standard output and standard error;
  \<^item> \<open>streams\<close>: the open streams, by handle (the value of a \<^verbatim>\<open>FILE*\<close>);
    \<open>next_handle\<close> is the handle the next successful open returns;
  \<^item> \<open>disk\<close>: the contents of the files, by path;
  \<^item> \<open>writable\<close>: the paths that can be opened for writing;
    \<open>open_error\<close>: the text of \<^verbatim>\<open>strerror(errno)\<close> after a failed open of a path;
  \<^item> \<open>clock\<close>: the local time that \<^verbatim>\<open>time\<close> and \<^verbatim>\<open>localtime_r\<close> read;
  \<^item> \<open>mutex_log\<close>: the calls made on \<^verbatim>\<open>logMutex\<close>, in order.
\<close>

record world =
  out_chars :: string
  err_chars :: string
  streams :: "nat \<rightharpoonup> FILE"
  next_handle :: nat
  disk :: "string \<rightharpoonup> string"
  writable :: "string \<Rightarrow> bool"
  open_error :: "string \<Rightarrow> string"
  clock :: tm
  mutex_log :: "mutex_op list"

definition file_content :: "world \<Rightarrow> string \<Rightarrow> string" where
  "file_content w p = (case disk w p of None \<Rightarrow> [] | Some c \<Rightarrow> c)"

definition write_stdout :: "string \<Rightarrow> world \<Rightarrow> world" where
  "write_stdout s w = w\<lparr>out_chars := out_chars w @ s\<rparr>"

definition write_stderr :: "string \<Rightarrow> world \<Rightarrow> world" where
  "write_stderr s w = w\<lparr>err_chars := err_chars w @ s\<rparr>"

definition mutex_call :: "mutex_op \<Rightarrow> world \<Rightarrow> world" where
  "mutex_call e w = w\<lparr>mutex_log := mutex_log w @ [e]\<rparr>"

text \<open>
  The C library on streams. Opening with mode \<^verbatim>\<open>"w"\<close> creates or truncates the file.
  A write goes to the stream's buffer; \<^verbatim>\<open>fflush\<close> moves the buffer to the end of the file;
  \<^verbatim>\<open>fclose\<close> flushes and removes the stream. Writes and flushes of an open stream
  succeed. A handle that names no open stream leaves the environment as it is (the code
  never uses one: see \<open>c_wf\<close> below).
\<close>

definition fopen_w :: "string \<Rightarrow> world \<Rightarrow> nat option \<times> world" where
  "fopen_w p w =
     (if writable w p
      then (Some (next_handle w),
            w\<lparr>streams := (streams w)(next_handle w \<mapsto> \<lparr>f_path = p, f_buffer = []\<rparr>),
              next_handle := Suc (next_handle w),
              disk := (disk w)(p \<mapsto> [])\<rparr>)
      else (None, w))"

definition fwrite_h :: "nat \<Rightarrow> string \<Rightarrow> world \<Rightarrow> world" where
  "fwrite_h h s w =
     (case streams w h of
        None \<Rightarrow> w
      | Some f \<Rightarrow> w\<lparr>streams := (streams w)(h \<mapsto> f\<lparr>f_buffer := f_buffer f @ s\<rparr>)\<rparr>)"

definition fflush_h :: "nat \<Rightarrow> world \<Rightarrow> world" where
  "fflush_h h w =
     (case streams w h of
        None \<Rightarrow> w
      | Some f \<Rightarrow> w\<lparr>streams := (streams w)(h \<mapsto> f\<lparr>f_buffer := []\<rparr>),
                    disk := (disk w)(f_path f \<mapsto> file_content w (f_path f) @ f_buffer f)\<rparr>)"

definition fclose_h :: "nat \<Rightarrow> world \<Rightarrow> world" where
  "fclose_h h w = (let w1 = fflush_h h w in w1\<lparr>streams := (streams w1)(h := None)\<rparr>)"

subsection \<open>The C variant (relogger.c)\<close>

text \<open>
  \<^verbatim>\<open>static FILE* logFile = NULL;\<close>
  \<^verbatim>\<open>static LogLevel currentLevel = LogLevel_Trace;\<close>
  \<^verbatim>\<open>static int mutexInitialized = 0;\<close>
\<close>

record c_logger =
  logFile :: "nat option"
  currentLevel :: LogLevel
  mutexInitialized :: bool

definition c_initial :: c_logger where
  "c_initial = \<lparr>logFile = None, currentLevel = LogLevel_Trace, mutexInitialized = False\<rparr>"

definition LevelToString :: "LogLevel \<Rightarrow> string" where
  "LevelToString level =
     (if level = LogLevel_Trace then ''TRACE''
      else if level = LogLevel_Debug then ''DEBUG''
      else if level = LogLevel_Info then ''INFO''
      else if level = LogLevel_Warn then ''WARN''
      else if level = LogLevel_Error then ''ERROR''
      else if level = LogLevel_Fatal then ''FATAL''
      else ''UNKNOWN'')"

definition LevelToColor :: "LogLevel \<Rightarrow> string" where
  "LevelToColor level =
     (if level = LogLevel_Trace then ESC # ''[37m''
      else if level = LogLevel_Debug then ESC # ''[36m''
      else if level = LogLevel_Info then ESC # ''[32m''
      else if level = LogLevel_Warn then ESC # ''[33m''
      else if level = LogLevel_Error then ESC # ''[31m''
      else if level = LogLevel_Fatal then ESC # ''[41m''
      else ESC # ''[0m'')"

text \<open>
  \<^verbatim>\<open>RELogger_Init(const char* logFilePath)\<close>: the argument may be \<^verbatim>\<open>NULL\<close> (\<open>None\<close>).
  \<^verbatim>\<open>INIT_MUTEX()\<close> expands to nothing here. The result of \<^verbatim>\<open>fopen\<close> is assigned to
  \<^verbatim>\<open>logFile\<close> whether or not it is \<^verbatim>\<open>NULL\<close>.
\<close>

definition RELogger_Init :: "string option \<Rightarrow> c_logger \<times> world \<Rightarrow> c_logger \<times> world" where
  "RELogger_Init logFilePath = (\<lambda>(s, w).
     let s1 = s\<lparr>mutexInitialized := True\<rparr> in
     (case logFilePath of
        None \<Rightarrow> (s1, w)
      | Some p \<Rightarrow>
          if length p > 0
          then (case fopen_w p w of
                  (None, w1) \<Rightarrow>
                    (s1\<lparr>logFile := None\<rparr>,
                     write_stderr (''Warning: Could not open log file '' @ [QUOTE] @ p @ [QUOTE]
                                   @ '' (error: '' @ open_error w1 p @ '')'' @ [NL]) w1)
                | (Some h, w1) \<Rightarrow> (s1\<lparr>logFile := Some h\<rparr>, w1))
          else (s1, w)))"

definition RELogger_Shutdown :: "c_logger \<times> world \<Rightarrow> c_logger \<times> world" where
  "RELogger_Shutdown = (\<lambda>(s, w).
     let (s1, w1) = (case logFile s of
                       None \<Rightarrow> (s, w)
                     | Some h \<Rightarrow> (s\<lparr>logFile := None\<rparr>, fclose_h h (fflush_h h w)))
     in if mutexInitialized s1
        then (s1\<lparr>mutexInitialized := False\<rparr>, mutex_call MDestroy w1)
        else (s1, w1))"

definition RELogger_SetLevel :: "LogLevel \<Rightarrow> c_logger \<times> world \<Rightarrow> c_logger \<times> world" where
  "RELogger_SetLevel level = (\<lambda>(s, w). (s\<lparr>currentLevel := level\<rparr>, w))"

definition RELogger_GetLevel :: "c_logger \<times> world \<Rightarrow> LogLevel \<times> c_logger \<times> world" where
  "RELogger_GetLevel = (\<lambda>(s, w). (currentLevel s, s, w))"

text \<open>
  \<^verbatim>\<open>RELogger_Log(level, message, file, line, func)\<close>; the first argument of the model says
  whether \<^verbatim>\<open>DEBUG\<close> is defined.
\<close>

definition RELogger_Log ::
  "bool \<Rightarrow> LogLevel \<Rightarrow> string \<Rightarrow> string \<Rightarrow> int \<Rightarrow> string \<Rightarrow> c_logger \<times> world \<Rightarrow> c_logger \<times> world" where
  "RELogger_Log DEBUG level message file line func = (\<lambda>(s, w).
     if \<not> DEBUG then (s, w)
     else if level < currentLevel s then (s, w)
     else
       let w1 = mutex_call MLock w;
           timeStr = strftime_HMS (clock w1);
           text = LevelToColor level @ ''['' @ timeStr @ ''] '' @ LevelToString level @ '' ''
                  @ file @ '':'' @ dec_int line @ '' ('' @ func @ '') - '' @ message
                  @ RESET_COLOR @ [NL];
           w2 = (if level \<ge> LogLevel_Error then write_stderr text w1 else write_stdout text w1);
           w3 = (case logFile s of
                   None \<Rightarrow> w2
                 | Some h \<Rightarrow>
                     fflush_h h
                       (fwrite_h h (''['' @ timeStr @ ''] '' @ LevelToString level @ '' ''
                                    @ file @ '':'' @ dec_int line @ '' ('' @ func @ '') - ''
                                    @ message @ [NL]) w2))
       in (s, mutex_call MUnlock w3))"

subsection \<open>The C++ variant (relogger.cpp)\<close>

text \<open>
  \<^verbatim>\<open>std::ofstream logFile;\<close> The stream object has a file buffer that is open on a file
  or closed (\<open>of_handle\<close>), and an error state (\<open>of_fail\<close>: \<^verbatim>\<open>failbit\<close> or \<^verbatim>\<open>badbit\<close>
  is set, so that \<^verbatim>\<open>!logFile\<close> is true).
\<close>

record ofstream =
  of_handle :: "nat option"
  of_fail :: bool

text \<open>
  The stream library, as the C++ standard describes it:
  \<^item> \<^verbatim>\<open>open\<close> fails on a stream that is already open, and when the file cannot be
    opened; a failure sets \<^verbatim>\<open>failbit\<close> and changes nothing else, a success clears the
    error state;
  \<^item> an insertion (\<^verbatim>\<open><<\<close>) and \<^verbatim>\<open>flush\<close> do nothing when the error state is set;
    an insertion into a closed file buffer sets \<^verbatim>\<open>badbit\<close>;
  \<^item> \<^verbatim>\<open>std::endl\<close> inserts a newline and flushes;
  \<^item> \<^verbatim>\<open>close\<close> flushes and closes the file buffer and leaves the error state as it
    is; on a closed buffer it sets \<^verbatim>\<open>failbit\<close>.
\<close>

definition ofstream_is_open :: "ofstream \<Rightarrow> bool" where
  "ofstream_is_open f = (of_handle f \<noteq> None)"

definition ofstream_open :: "string \<Rightarrow> ofstream \<times> world \<Rightarrow> ofstream \<times> world" where
  "ofstream_open p = (\<lambda>(f, w).
     if ofstream_is_open f then (f\<lparr>of_fail := True\<rparr>, w)
     else (case fopen_w p w of
             (None, w1) \<Rightarrow> (f\<lparr>of_fail := True\<rparr>, w1)
           | (Some h, w1) \<Rightarrow> (\<lparr>of_handle = Some h, of_fail = False\<rparr>, w1)))"

definition ofstream_insert :: "string \<Rightarrow> ofstream \<times> world \<Rightarrow> ofstream \<times> world" where
  "ofstream_insert s = (\<lambda>(f, w).
     if of_fail f then (f, w)
     else (case of_handle f of
             None \<Rightarrow> (f\<lparr>of_fail := True\<rparr>, w)
           | Some h \<Rightarrow> (f, fwrite_h h s w)))"

definition ofstream_flush :: "ofstream \<times> world \<Rightarrow> ofstream \<times> world" where
  "ofstream_flush = (\<lambda>(f, w).
     if of_fail f then (f, w)
     else (case of_handle f of
             None \<Rightarrow> (f, w)
           | Some h \<Rightarrow> (f, fflush_h h w)))"

definition ofstream_endl :: "ofstream \<times> world \<Rightarrow> ofstream \<times> world" where
  "ofstream_endl fw = ofstream_flush (ofstream_insert [NL] fw)"

definition ofstream_close :: "ofstream \<times> world \<Rightarrow> ofstream \<times> world" where
  "ofstream_close = (\<lambda>(f, w).
     case of_handle f of
       None \<Rightarrow> (f\<lparr>of_fail := True\<rparr>, w)
     | Some h \<Rightarrow> (f\<lparr>of_handle := None\<rparr>, fclose_h h w))"

text \<open>
  \<^verbatim>\<open>std::ofstream logFile;\<close>
  \<^verbatim>\<open>LogLevel currentLevel = LogLevel::Trace;\<close>
  (\<^verbatim>\<open>std::mutex logMutex\<close> is seen through \<open>mutex_log\<close>.)
\<close>

record cpp_logger =
  cpp_logFile :: ofstream
  cpp_currentLevel :: LogLevel

definition cpp_initial :: cpp_logger where
  "cpp_initial = \<lparr>cpp_logFile = \<lparr>of_handle = None, of_fail = False\<rparr>,
                   cpp_currentLevel = LogLevel_Trace\<rparr>"

definition cpp_LevelToString :: "LogLevel \<Rightarrow> string" where
  "cpp_LevelToString level =
     (if level = LogLevel_Trace then ''TRACE''
      else if level = LogLevel_Debug then ''DEBUG''
      else if level = LogLevel_Info then ''INFO''
      else if level = LogLevel_Warn then ''WARN''
      else if level = LogLevel_Error then ''ERROR''
      else if level = LogLevel_Fatal then ''FATAL''
      else ''UNKNOWN'')"

definition cpp_LevelToColor :: "LogLevel \<Rightarrow> string" where
  "cpp_LevelToColor level =
     (if level = LogLevel_Trace then ESC # ''[37m''
      else if level = LogLevel_Debug then ESC # ''[36m''
      else if level = LogLevel_Info then ESC # ''[32m''
      else if level = LogLevel_Warn then ESC # ''[33m''
      else if level = LogLevel_Error then ESC # ''[31m''
      else if level = LogLevel_Fatal then ESC # ''[41m''
      else ESC # ''[0m'')"

text \<open>
  \<^verbatim>\<open>RELogger::Init(const std::string& logFilePath)\<close>. A \<^verbatim>\<open>std::lock_guard\<close> locks the
  mutex where it is declared and unlocks it when the function returns. A chain of
  insertions \<^verbatim>\<open>out << a << b << ...\<close> is a fold over its operands.
\<close>

definition Init :: "string \<Rightarrow> cpp_logger \<times> world \<Rightarrow> cpp_logger \<times> world" where
  "Init logFilePath = (\<lambda>(s, w).
     let w1 = mutex_call MLock w;
         (s2, w2) =
           (if logFilePath \<noteq> []
            then (let (f, w') = ofstream_open logFilePath (cpp_logFile s, w1)
                  in if of_fail f
                     then (s\<lparr>cpp_logFile := f\<rparr>,
                           fold write_stderr
                             [ESC # ''[31m[LOGGER ERROR] Failed to open log file: '',
                              logFilePath, ESC # ''[0m'', [NL]] w')
                     else (s\<lparr>cpp_logFile := f\<rparr>, w'))
            else (s, w1))
     in (s2, mutex_call MUnlock w2))"

definition Shutdown :: "cpp_logger \<times> world \<Rightarrow> cpp_logger \<times> world" where
  "Shutdown = (\<lambda>(s, w).
     let w1 = mutex_call MLock w;
         (f2, w2) =
           (if ofstream_is_open (cpp_logFile s)
            then ofstream_close (ofstream_flush (cpp_logFile s, w1))
            else (cpp_logFile s, w1))
     in (s\<lparr>cpp_logFile := f2\<rparr>, mutex_call MUnlock w2))"

definition SetLevel :: "LogLevel \<Rightarrow> cpp_logger \<times> world \<Rightarrow> cpp_logger \<times> world" where
  "SetLevel level = (\<lambda>(s, w).
     let w1 = mutex_call MLock w;
         s1 = s\<lparr>cpp_currentLevel := level\<rparr>
     in (s1, mutex_call MUnlock w1))"

definition GetLevel :: "cpp_logger \<times> world \<Rightarrow> LogLevel \<times> cpp_logger \<times> world" where
  "GetLevel = (\<lambda>(s, w).
     let w1 = mutex_call MLock w;
         r = cpp_currentLevel s
     in (r, s, mutex_call MUnlock w1))"

text \<open>
  \<^verbatim>\<open>RELogger::Log(level, message, file, line, func)\<close>; the first argument of the model
  says whether \<^verbatim>\<open>NDEBUG\<close> is defined.
\<close>

definition Log ::
  "bool \<Rightarrow> LogLevel \<Rightarrow> string \<Rightarrow> string \<Rightarrow> int \<Rightarrow> string \<Rightarrow> cpp_logger \<times> world \<Rightarrow> cpp_logger \<times> world" where
  "Log NDEBUG level message file line func = (\<lambda>(s, w).
     if NDEBUG then (s, w)
     else if level < cpp_currentLevel s then (s, w)
     else
       let w1 = mutex_call MLock w;
           oss = strftime_HMS (clock w1);
           w2 = fold (if level \<ge> LogLevel_Error then write_stderr else write_stdout)
                  [cpp_LevelToColor level,
                   ''['', oss, ''] '',
                   cpp_LevelToString level, '' '',
                   file, '':'', dec_int line, '' ('', func, '') - '',
                   message,
                   ESC # ''[0m'', [NL]] w1;
           (f3, w3) =
             (if ofstream_is_open (cpp_logFile s)
              then ofstream_endl
                     (fold ofstream_insert
                        [''['', oss, ''] '',
                         cpp_LevelToString level, '' '',
                         file, '':'', dec_int line, '' ('', func, '') - '',
                         message] (cpp_logFile s, w2))
              else (cpp_logFile s, w2))
       in (s\<lparr>cpp_logFile := f3\<rparr>, mutex_call MUnlock w3))"

subsection \<open>Well-formed states and a sample environment\<close>

text \<open>
  Between two calls, the stream that the logger points to is open and its buffer is
  empty; in the C++ variant, moreover, an open sink has a clear error state. Both hold
  initially. \<open>c_wf\<close> is kept by every operation of the C variant. \<open>cpp_wf\<close> is kept by
  every operation of the C++ variant as long as \<open>Init\<close> is not called with a path while
  a sink is open (then \<open>open\<close> fails on the open stream, sets its error state, and the
  later records are dropped). The lemmas \<open>c_wf_*\<close> and \<open>cpp_wf_*\<close> below prove this.
\<close>

definition c_wf :: "c_logger \<times> world \<Rightarrow> bool" where
  "c_wf = (\<lambda>(s, w). case logFile s of
                        None \<Rightarrow> True
                      | Some h \<Rightarrow> (case streams w h of
                                    None \<Rightarrow> False
                                  | Some st \<Rightarrow> f_buffer st = []))"

definition cpp_wf :: "cpp_logger \<times> world \<Rightarrow> bool" where
  "cpp_wf = (\<lambda>(s, w). case of_handle (cpp_logFile s) of
                          None \<Rightarrow> True
                        | Some h \<Rightarrow> \<not> of_fail (cpp_logFile s)
                                    \<and> (case streams w h of
                                          None \<Rightarrow> False
                                        | Some st \<Rightarrow> f_buffer st = []))"

text \<open>An environment to run examples in: nothing written yet, no stream open, one
  writable path, the time 09:05:03.\<close>

definition w0 :: world where
  "w0 = \<lparr>out_chars = [], err_chars = [], streams = Map.empty, next_handle = 0,
         disk = Map.empty, writable = (\<lambda>p. p = ''app.log''),
         open_error = (\<lambda>p. ''Permission denied''),
         clock = \<lparr>tm_hour = 9, tm_min = 5, tm_sec = 3\<rparr>, mutex_log = []\<rparr>"

subsection \<open>The line format of the spec\<close>

text \<open>
  The only definition here that follows the spec and not the code. The spec gives one
  record of the file as
  \<^verbatim>\<open>[HH:MM:SS] LEVELNAME sourceFile:sourceLine (functionName) - message\<close>.
  \<open>spec_line\<close> is that line, without the newline that ends it, from the time
  \<^verbatim>\<open>HH:MM:SS\<close>, the level's name and the call-site data. The theorems compare what
  the two \<open>Log\<close> functions write with it.
\<close>

definition spec_line :: "string \<Rightarrow> string \<Rightarrow> string \<Rightarrow> int \<Rightarrow> string \<Rightarrow> string \<Rightarrow> string" where
  "spec_line timeStr levelName sourceFile sourceLine functionName message =
     ''['' @ timeStr @ ''] '' @ levelName @ '' '' @ sourceFile @ '':'' @ dec_int sourceLine
     @ '' ('' @ functionName @ '') - '' @ message"

subsection \<open>Calls between \<open>Init\<close> and \<open>Shutdown\<close>\<close>

text \<open>
  What a client does with an initialised logger: it sets and reads the threshold and it
  logs. \<open>c_uses\<close> and \<open>cpp_uses\<close> run a list of such calls, in order, in the C and in
  the C++ variant.
\<close>

datatype use =
  Use_SetLevel LogLevel
| Use_GetLevel
| Use_Log LogLevel string string int string

fun c_use :: "bool \<Rightarrow> use \<Rightarrow> c_logger \<times> world \<Rightarrow> c_logger \<times> world" where
  "c_use DEBUG (Use_SetLevel level) x = RELogger_SetLevel level x"
| "c_use DEBUG Use_GetLevel x = snd (RELogger_GetLevel x)"
| "c_use DEBUG (Use_Log level message file line func) x =
     RELogger_Log DEBUG level message file line func x"

definition c_uses :: "bool \<Rightarrow> use list \<Rightarrow> c_logger \<times> world \<Rightarrow> c_logger \<times> world" where
  "c_uses DEBUG us x = fold (c_use DEBUG) us x"

fun cpp_use :: "bool \<Rightarrow> use \<Rightarrow> cpp_logger \<times> world \<Rightarrow> cpp_logger \<times> world" where
  "cpp_use NDEBUG (Use_SetLevel level) x = SetLevel level x"
| "cpp_use NDEBUG Use_GetLevel x = snd (GetLevel x)"
| "cpp_use NDEBUG (Use_Log level message file line func) x =
     Log NDEBUG level message file line func x"

definition cpp_uses :: "bool \<Rightarrow> use list \<Rightarrow> cpp_logger \<times> world \<Rightarrow> cpp_logger \<times> world" where
  "cpp_uses NDEBUG us x = fold (cpp_use NDEBUG) us x"

subsection \<open>Comparing the two variants\<close>

text \<open>
  \<open>io_of\<close> is the environment without the history of mutex calls: the console streams,
  the open streams and their buffers, the disk, and what the environment answers.
  A state of the C variant and a state of the C++ variant correspond when they have the
  same threshold and the same sink (the same open stream, or none) and the C++ stream is
  not both open and in its error state. \<open>agree\<close> adds that the environments are the
  same up to the mutex history.
\<close>

definition io_of :: "world \<Rightarrow> world" where
  "io_of w = w\<lparr>mutex_log := []\<rparr>"

definition corresponds :: "c_logger \<Rightarrow> cpp_logger \<Rightarrow> bool" where
  "corresponds c p =
     (currentLevel c = cpp_currentLevel p
      \<and> logFile c = of_handle (cpp_logFile p)
      \<and> \<not> (ofstream_is_open (cpp_logFile p) \<and> of_fail (cpp_logFile p)))"

definition agree :: "c_logger \<times> world \<Rightarrow> cpp_logger \<times> world \<Rightarrow> bool" where
  "agree x y = (corresponds (fst x) (fst y) \<and> io_of (snd x) = io_of (snd y))"

section \<open>Properties\<close>

lemmas LogLevel_defs =
  LogLevel_Trace_def LogLevel_Debug_def LogLevel_Info_def
  LogLevel_Warn_def LogLevel_Error_def LogLevel_Fatal_def

subsection \<open>Chains of writes\<close>

lemma fold_write_stderr: "fold write_stderr ps w = write_stderr (concat ps) w"
proof (induction ps arbitrary: w)
  case Nil
  show ?case by (simp add: write_stderr_def)
next
  case (Cons p ps)
  show ?case by (simp add: Cons.IH) (simp add: write_stderr_def)
qed

lemma fold_write_stdout: "fold write_stdout ps w = write_stdout (concat ps) w"
proof (induction ps arbitrary: w)
  case Nil
  show ?case by (simp add: write_stdout_def)
next
  case (Cons p ps)
  show ?case by (simp add: Cons.IH) (simp add: write_stdout_def)
qed

lemma fwrite_h_fwrite_h: "fwrite_h h b (fwrite_h h a w) = fwrite_h h (a @ b) w"
  by (simp add: fwrite_h_def split: option.splits)

lemma fwrite_h_Nil: "fwrite_h h [] w = w"
  by (simp add: fwrite_h_def map_upd_triv split: option.splits)

lemma fold_ofstream_insert_good:
  "of_handle f = Some h \<Longrightarrow> \<not> of_fail f \<Longrightarrow>
   fold ofstream_insert ps (f, w) = (f, fwrite_h h (concat ps) w)"
proof (induction ps arbitrary: w)
  case Nil
  show ?case by (simp add: fwrite_h_Nil)
next
  case (Cons p ps)
  then show ?case by (simp add: ofstream_insert_def fwrite_h_fwrite_h)
qed

lemma fold_ofstream_insert_fail:
  "of_fail f \<Longrightarrow> fold ofstream_insert ps (f, w) = (f, w)"
  by (induction ps) (simp_all add: ofstream_insert_def)

subsection \<open>What one call of the C \<open>RELogger_Log\<close> does\<close>

lemma c_Log_skip:
  "\<not> DEBUG \<or> level < currentLevel s \<Longrightarrow>
   RELogger_Log DEBUG level message file line func (s, w) = (s, w)"
  by (auto simp: RELogger_Log_def)

lemma c_Log_state: "fst (RELogger_Log DEBUG level message file line func (s, w)) = s"
  by (simp add: RELogger_Log_def Let_def)

lemma c_Log_console:
  assumes "DEBUG" "\<not> level < currentLevel s"
  shows "out_chars (snd (RELogger_Log DEBUG level message file line func (s, w))) =
           out_chars w @ (if level \<ge> LogLevel_Error then []
              else LevelToColor level
                   @ spec_line (strftime_HMS (clock w)) (LevelToString level) file line func message
                   @ RESET_COLOR @ [NL])"
    and "err_chars (snd (RELogger_Log DEBUG level message file line func (s, w))) =
           err_chars w @ (if level \<ge> LogLevel_Error
              then LevelToColor level
                   @ spec_line (strftime_HMS (clock w)) (LevelToString level) file line func message
                   @ RESET_COLOR @ [NL]
              else [])"
    and "mutex_log (snd (RELogger_Log DEBUG level message file line func (s, w))) =
           mutex_log w @ [MLock, MUnlock]"
  using assms
  by (simp_all add: RELogger_Log_def Let_def mutex_call_def write_stderr_def write_stdout_def
      fwrite_h_def fflush_h_def spec_line_def split: option.splits)

lemma c_Log_file_none:
  assumes "logFile s = None"
  shows "streams (snd (RELogger_Log DEBUG level message file line func (s, w))) = streams w"
    and "disk (snd (RELogger_Log DEBUG level message file line func (s, w))) = disk w"
  using assms
  by (simp_all add: RELogger_Log_def Let_def mutex_call_def write_stderr_def write_stdout_def)

subsection \<open>What one call of the C++ \<open>RELogger::Log\<close> does\<close>

lemma cpp_Level_tables: "cpp_LevelToString = LevelToString" "cpp_LevelToColor = LevelToColor"
  by (simp_all add: fun_eq_iff cpp_LevelToString_def LevelToString_def cpp_LevelToColor_def LevelToColor_def)

lemma fold_console:
  "fold (if c then write_stderr else write_stdout) ps w =
     (if c then write_stderr (concat ps) w else write_stdout (concat ps) w)"
  by (simp add: fold_write_stderr fold_write_stdout)

lemma endl_fold_insert_good:
  "of_handle f = Some h \<Longrightarrow> \<not> of_fail f \<Longrightarrow>
   ofstream_endl (fold ofstream_insert ps (f, w)) = (f, fflush_h h (fwrite_h h (concat ps @ [NL]) w))"
  by (simp add: fold_ofstream_insert_good ofstream_endl_def ofstream_insert_def ofstream_flush_def
      fwrite_h_fwrite_h del: fold.simps)

lemma endl_fold_insert_fail:
  "of_fail f \<Longrightarrow> ofstream_endl (fold ofstream_insert ps (f, w)) = (f, w)"
  by (simp add: fold_ofstream_insert_fail ofstream_endl_def ofstream_insert_def ofstream_flush_def
      del: fold.simps)

lemma cpp_Log_skip:
  "NDEBUG \<or> level < cpp_currentLevel s \<Longrightarrow>
   Log NDEBUG level message file line func (s, w) = (s, w)"
  by (auto simp: Log_def)

text \<open>The sink of the C++ variant is closed, open with the error state set, or open
  and good; \<open>RELogger::Log\<close> in each of the three.\<close>

lemma cpp_Log_closed:
  assumes "\<not> NDEBUG" "\<not> level < cpp_currentLevel s" "of_handle (cpp_logFile s) = None"
  shows "Log NDEBUG level message file line func (s, w) =
     (s, mutex_call MUnlock
           ((if level \<ge> LogLevel_Error then write_stderr else write_stdout)
              (cpp_LevelToColor level
               @ spec_line (strftime_HMS (clock w)) (cpp_LevelToString level) file line func message
               @ RESET_COLOR @ [NL])
              (mutex_call MLock w)))"
  using assms
  by (simp add: Log_def Let_def fold_console ofstream_is_open_def spec_line_def RESET_COLOR_def
      mutex_call_def del: fold.simps)

lemma cpp_Log_failed:
  assumes "\<not> NDEBUG" "\<not> level < cpp_currentLevel s" "of_fail (cpp_logFile s)"
  shows "Log NDEBUG level message file line func (s, w) =
     (s, mutex_call MUnlock
           ((if level \<ge> LogLevel_Error then write_stderr else write_stdout)
              (cpp_LevelToColor level
               @ spec_line (strftime_HMS (clock w)) (cpp_LevelToString level) file line func message
               @ RESET_COLOR @ [NL])
              (mutex_call MLock w)))"
  using assms
  by (simp add: Log_def Let_def fold_console endl_fold_insert_fail spec_line_def RESET_COLOR_def
      mutex_call_def del: fold.simps)

lemma cpp_Log_good:
  assumes "\<not> NDEBUG" "\<not> level < cpp_currentLevel s"
    "of_handle (cpp_logFile s) = Some h" "\<not> of_fail (cpp_logFile s)"
  shows "Log NDEBUG level message file line func (s, w) =
     (s, mutex_call MUnlock
           (fflush_h h
             (fwrite_h h
               (spec_line (strftime_HMS (clock w)) (cpp_LevelToString level) file line func message @ [NL])
           ((if level \<ge> LogLevel_Error then write_stderr else write_stdout)
              (cpp_LevelToColor level
               @ spec_line (strftime_HMS (clock w)) (cpp_LevelToString level) file line func message
               @ RESET_COLOR @ [NL])
              (mutex_call MLock w)))))"
  using assms
  by (simp add: Log_def Let_def fold_console endl_fold_insert_good ofstream_is_open_def
      spec_line_def RESET_COLOR_def mutex_call_def del: fold.simps)

lemma cpp_Log_state: "fst (Log NDEBUG level message file line func (s, w)) = s"
proof (cases "NDEBUG \<or> level < cpp_currentLevel s")
  case True
  then show ?thesis by (simp add: cpp_Log_skip)
next
  case False
  then have a: "\<not> NDEBUG" "\<not> level < cpp_currentLevel s" by simp_all
  show ?thesis
  proof (cases "of_fail (cpp_logFile s)")
    case True
    then show ?thesis by (simp add: cpp_Log_failed [OF a])
  next
    case good: False
    show ?thesis
    proof (cases "of_handle (cpp_logFile s)")
      case None
      then show ?thesis by (simp add: cpp_Log_closed [OF a])
    next
      case (Some h)
      then show ?thesis by (simp add: cpp_Log_good [OF a Some good])
    qed
  qed
qed

subsection \<open>The fields of the environment after each library call\<close>

lemma mutex_call_fields [simp]:
  "out_chars (mutex_call e w) = out_chars w"
  "err_chars (mutex_call e w) = err_chars w"
  "streams (mutex_call e w) = streams w"
  "next_handle (mutex_call e w) = next_handle w"
  "disk (mutex_call e w) = disk w"
  "writable (mutex_call e w) = writable w"
  "open_error (mutex_call e w) = open_error w"
  "clock (mutex_call e w) = clock w"
  "mutex_log (mutex_call e w) = mutex_log w @ [e]"
  by (simp_all add: mutex_call_def)

lemma write_stdout_fields [simp]:
  "out_chars (write_stdout x w) = out_chars w @ x"
  "err_chars (write_stdout x w) = err_chars w"
  "streams (write_stdout x w) = streams w"
  "next_handle (write_stdout x w) = next_handle w"
  "disk (write_stdout x w) = disk w"
  "writable (write_stdout x w) = writable w"
  "open_error (write_stdout x w) = open_error w"
  "clock (write_stdout x w) = clock w"
  "mutex_log (write_stdout x w) = mutex_log w"
  by (simp_all add: write_stdout_def)

lemma write_stderr_fields [simp]:
  "out_chars (write_stderr x w) = out_chars w"
  "err_chars (write_stderr x w) = err_chars w @ x"
  "streams (write_stderr x w) = streams w"
  "next_handle (write_stderr x w) = next_handle w"
  "disk (write_stderr x w) = disk w"
  "writable (write_stderr x w) = writable w"
  "open_error (write_stderr x w) = open_error w"
  "clock (write_stderr x w) = clock w"
  "mutex_log (write_stderr x w) = mutex_log w"
  by (simp_all add: write_stderr_def)

lemma fwrite_h_fields [simp]:
  "out_chars (fwrite_h h x w) = out_chars w"
  "err_chars (fwrite_h h x w) = err_chars w"
  "next_handle (fwrite_h h x w) = next_handle w"
  "disk (fwrite_h h x w) = disk w"
  "writable (fwrite_h h x w) = writable w"
  "open_error (fwrite_h h x w) = open_error w"
  "clock (fwrite_h h x w) = clock w"
  "mutex_log (fwrite_h h x w) = mutex_log w"
  by (simp_all add: fwrite_h_def split: option.splits)

lemma fflush_h_fields [simp]:
  "out_chars (fflush_h h w) = out_chars w"
  "err_chars (fflush_h h w) = err_chars w"
  "next_handle (fflush_h h w) = next_handle w"
  "writable (fflush_h h w) = writable w"
  "open_error (fflush_h h w) = open_error w"
  "clock (fflush_h h w) = clock w"
  "mutex_log (fflush_h h w) = mutex_log w"
  by (simp_all add: fflush_h_def split: option.splits)

lemma fclose_h_fields [simp]:
  "out_chars (fclose_h h w) = out_chars w"
  "err_chars (fclose_h h w) = err_chars w"
  "next_handle (fclose_h h w) = next_handle w"
  "writable (fclose_h h w) = writable w"
  "open_error (fclose_h h w) = open_error w"
  "clock (fclose_h h w) = clock w"
  "mutex_log (fclose_h h w) = mutex_log w"
  by (simp_all add: fclose_h_def Let_def)

subsection \<open>The operations, case by case\<close>

lemma c_Log_pass:
  assumes "DEBUG" "\<not> level < currentLevel s"
  shows "RELogger_Log DEBUG level message file line func (s, w) =
     (s, mutex_call MUnlock
           ((case logFile s of
               None \<Rightarrow> id
             | Some h \<Rightarrow> (\<lambda>w'. fflush_h h (fwrite_h h
                 (spec_line (strftime_HMS (clock w)) (LevelToString level) file line func message @ [NL]) w')))
           ((if level \<ge> LogLevel_Error then write_stderr else write_stdout)
              (LevelToColor level
               @ spec_line (strftime_HMS (clock w)) (LevelToString level) file line func message
               @ RESET_COLOR @ [NL])
              (mutex_call MLock w))))"
  using assms
  by (simp add: RELogger_Log_def Let_def spec_line_def mutex_call_def split: option.splits)

lemma fflush_h_idem: "fflush_h h (fflush_h h w) = fflush_h h w"
  by (simp add: fflush_h_def file_content_def split: option.splits)

lemma fclose_h_fflush_h: "fclose_h h (fflush_h h w) = fclose_h h w"
  by (simp add: fclose_h_def fflush_h_idem)

lemma c_Init_no_path:
  "logFilePath = None \<or> logFilePath = Some [] \<Longrightarrow>
   RELogger_Init logFilePath (s, w) = (s\<lparr>mutexInitialized := True\<rparr>, w)"
  by (auto simp: RELogger_Init_def)

lemma c_Init_opened:
  "p \<noteq> [] \<Longrightarrow> writable w p \<Longrightarrow>
   RELogger_Init (Some p) (s, w) =
     (s\<lparr>mutexInitialized := True, logFile := Some (next_handle w)\<rparr>, snd (fopen_w p w))"
  by (simp add: RELogger_Init_def fopen_w_def)

lemma c_Init_failed:
  "p \<noteq> [] \<Longrightarrow> \<not> writable w p \<Longrightarrow>
   RELogger_Init (Some p) (s, w) =
     (s\<lparr>mutexInitialized := True, logFile := None\<rparr>,
      write_stderr (''Warning: Could not open log file '' @ [QUOTE] @ p @ [QUOTE]
                    @ '' (error: '' @ open_error w p @ '')'' @ [NL]) w)"
  by (simp add: RELogger_Init_def fopen_w_def)

lemma cpp_Init_no_path:
  "Init [] (s, w) = (s, mutex_call MUnlock (mutex_call MLock w))"
  by (simp add: Init_def Let_def)

lemma cpp_Init_opened:
  "p \<noteq> [] \<Longrightarrow> of_handle (cpp_logFile s) = None \<Longrightarrow> writable w p \<Longrightarrow>
   Init p (s, w) =
     (s\<lparr>cpp_logFile := \<lparr>of_handle = Some (next_handle w), of_fail = False\<rparr>\<rparr>,
      mutex_call MUnlock (snd (fopen_w p (mutex_call MLock w))))"
  by (simp add: Init_def Let_def ofstream_open_def ofstream_is_open_def fopen_w_def mutex_call_def)

lemma cpp_Init_failed:
  "p \<noteq> [] \<Longrightarrow> of_handle (cpp_logFile s) \<noteq> None \<or> \<not> writable w p \<Longrightarrow>
   Init p (s, w) =
     (s\<lparr>cpp_logFile := (cpp_logFile s)\<lparr>of_fail := True\<rparr>\<rparr>,
      mutex_call MUnlock
        (write_stderr (ESC # ''[31m[LOGGER ERROR] Failed to open log file: '' @ p @ ESC # ''[0m'' @ [NL])
           (mutex_call MLock w)))"
  by (auto simp add: Init_def Let_def ofstream_open_def ofstream_is_open_def fopen_w_def
      fold_write_stderr simp del: fold.simps)

lemma c_Shutdown_closed:
  "logFile s = None \<Longrightarrow>
   RELogger_Shutdown (s, w) =
     (if mutexInitialized s then (s\<lparr>mutexInitialized := False\<rparr>, mutex_call MDestroy w) else (s, w))"
  by (simp add: RELogger_Shutdown_def)

lemma c_Shutdown_open:
  "logFile s = Some h \<Longrightarrow>
   RELogger_Shutdown (s, w) =
     (s\<lparr>logFile := None, mutexInitialized := False\<rparr>,
      (if mutexInitialized s then mutex_call MDestroy (fclose_h h w) else fclose_h h w))"
  by (simp add: RELogger_Shutdown_def fclose_h_fflush_h)

lemma cpp_Shutdown_closed:
  "of_handle (cpp_logFile s) = None \<Longrightarrow>
   Shutdown (s, w) = (s, mutex_call MUnlock (mutex_call MLock w))"
  by (simp add: Shutdown_def Let_def ofstream_is_open_def)

lemma cpp_Shutdown_open:
  "of_handle (cpp_logFile s) = Some h \<Longrightarrow>
   Shutdown (s, w) =
     (s\<lparr>cpp_logFile := (cpp_logFile s)\<lparr>of_handle := None\<rparr>\<rparr>,
      mutex_call MUnlock (fclose_h h (mutex_call MLock w)))"
  by (cases "of_fail (cpp_logFile s)")
    (simp_all add: Shutdown_def Let_def ofstream_is_open_def ofstream_flush_def ofstream_close_def
      fclose_h_fflush_h)

subsection \<open>File contents after each library call\<close>

lemma file_content_unchanged [simp]:
  "file_content (mutex_call e w) p = file_content w p"
  "file_content (write_stdout x w) p = file_content w p"
  "file_content (write_stderr x w) p = file_content w p"
  "file_content (fwrite_h h x w) p = file_content w p"
  by (simp_all add: file_content_def)

lemma file_content_fflush_h:
  "file_content (fflush_h h w) p =
     (case streams w h of
        None \<Rightarrow> file_content w p
      | Some st \<Rightarrow> if f_path st = p then file_content w p @ f_buffer st else file_content w p)"
  by (simp add: fflush_h_def file_content_def split: option.splits)

subsection \<open>\<open>Log\<close> only appends\<close>

lemma streams_fwrite_h:
  "streams (fwrite_h h x w) =
     (case streams w h of
        None \<Rightarrow> streams w
      | Some st \<Rightarrow> (streams w)(h \<mapsto> st\<lparr>f_buffer := f_buffer st @ x\<rparr>))"
  by (simp add: fwrite_h_def split: option.splits)

lemma file_content_write_flush:
  "file_content (fflush_h h (fwrite_h h x w)) p =
     (case streams w h of
        None \<Rightarrow> file_content w p
      | Some st \<Rightarrow> if f_path st = p then file_content w p @ f_buffer st @ x else file_content w p)"
  by (simp add: file_content_fflush_h streams_fwrite_h split: option.splits)

lemma prefix_file_content_write_flush:
  "file_content w1 p = file_content w p \<Longrightarrow>
   prefix (file_content w p) (file_content (fflush_h h (fwrite_h h x w1)) p)"
  by (simp add: file_content_write_flush split: option.splits)

lemma c_Log_appends:
  "prefix (out_chars w) (out_chars (snd (RELogger_Log DEBUG level message file line func (s, w))))"
  "prefix (err_chars w) (err_chars (snd (RELogger_Log DEBUG level message file line func (s, w))))"
  "prefix (file_content w p)
     (file_content (snd (RELogger_Log DEBUG level message file line func (s, w))) p)"
proof -
  let ?w' = "snd (RELogger_Log DEBUG level message file line func (s, w))"
  show "prefix (out_chars w) (out_chars ?w')"
    by (cases "DEBUG \<and> \<not> level < currentLevel s")
      (auto simp: c_Log_console c_Log_skip)
  show "prefix (err_chars w) (err_chars ?w')"
    by (cases "DEBUG \<and> \<not> level < currentLevel s")
      (auto simp: c_Log_console c_Log_skip)
  show "prefix (file_content w p) (file_content ?w' p)"
  proof (cases "DEBUG \<and> \<not> level < currentLevel s")
    case False
    then show ?thesis by (auto simp: c_Log_skip)
  next
    case True
    then have a: "DEBUG" "\<not> level < currentLevel s" by simp_all
    show ?thesis
    proof (cases "logFile s")
      case None
      then show ?thesis by (simp add: c_Log_pass [OF a])
    next
      case (Some h)
      show ?thesis
        by (simp add: c_Log_pass [OF a] Some prefix_file_content_write_flush)
    qed
  qed
qed

lemma cpp_Log_appends:
  "prefix (out_chars w) (out_chars (snd (Log NDEBUG level message file line func (s, w))))"
  "prefix (err_chars w) (err_chars (snd (Log NDEBUG level message file line func (s, w))))"
  "prefix (file_content w p)
     (file_content (snd (Log NDEBUG level message file line func (s, w))) p)"
proof -
  let ?w' = "snd (Log NDEBUG level message file line func (s, w))"
  have "prefix (out_chars w) (out_chars ?w') \<and> prefix (err_chars w) (err_chars ?w')
        \<and> prefix (file_content w p) (file_content ?w' p)"
  proof (cases "NDEBUG \<or> level < cpp_currentLevel s")
    case True
    then show ?thesis by (simp add: cpp_Log_skip)
  next
    case False
    then have a: "\<not> NDEBUG" "\<not> level < cpp_currentLevel s" by simp_all
    show ?thesis
    proof (cases "of_fail (cpp_logFile s)")
      case True
      then show ?thesis by (simp add: cpp_Log_failed [OF a])
    next
      case good: False
      show ?thesis
      proof (cases "of_handle (cpp_logFile s)")
        case None
        then show ?thesis by (simp add: cpp_Log_closed [OF a])
      next
        case (Some h)
        show ?thesis
          by (simp add: cpp_Log_good [OF a Some good] prefix_file_content_write_flush)
      qed
    qed
  qed
  then show "prefix (out_chars w) (out_chars ?w')" "prefix (err_chars w) (err_chars ?w')"
    "prefix (file_content w p) (file_content ?w' p)"
    by simp_all
qed

subsection \<open>The threshold under \<open>Init\<close> and \<open>Shutdown\<close>\<close>

lemma c_level_frame:
  "currentLevel (fst (RELogger_Init logFilePath (s, w))) = currentLevel s"
  "currentLevel (fst (RELogger_Shutdown (s, w))) = currentLevel s"
  by (simp_all add: RELogger_Init_def RELogger_Shutdown_def Let_def split_beta
      split: option.splits prod.splits)

lemma cpp_level_frame:
  "cpp_currentLevel (fst (Init p (s, w))) = cpp_currentLevel s"
  "cpp_currentLevel (fst (Shutdown (s, w))) = cpp_currentLevel s"
  by (simp_all add: Init_def Shutdown_def Let_def split_beta)

subsection \<open>The sinks after a \<open>Log\<close> call that passes the filter\<close>

lemma streams_write_flush:
  "streams w h = Some st \<Longrightarrow>
   streams (fflush_h h (fwrite_h h x w)) = (streams w)(h \<mapsto> st\<lparr>f_buffer := []\<rparr>)"
  by (simp add: fflush_h_def fwrite_h_def)

lemma c_Log_sink:
  assumes "DEBUG" "\<not> level < currentLevel s" "logFile s = Some h" "streams w h = Some st"
  shows "file_content (snd (RELogger_Log DEBUG level message file line func (s, w))) (f_path st) =
           file_content w (f_path st) @ f_buffer st
           @ spec_line (strftime_HMS (clock w)) (LevelToString level) file line func message @ [NL]"
    and "streams (snd (RELogger_Log DEBUG level message file line func (s, w))) h =
           Some (st\<lparr>f_buffer := []\<rparr>)"
  using assms
  by (simp_all add: c_Log_pass file_content_write_flush streams_write_flush)

lemma cpp_Log_sink:
  assumes "\<not> NDEBUG" "\<not> level < cpp_currentLevel s"
    "of_handle (cpp_logFile s) = Some h" "\<not> of_fail (cpp_logFile s)" "streams w h = Some st"
  shows "file_content (snd (Log NDEBUG level message file line func (s, w))) (f_path st) =
           file_content w (f_path st) @ f_buffer st
           @ spec_line (strftime_HMS (clock w)) (cpp_LevelToString level) file line func message @ [NL]"
    and "streams (snd (Log NDEBUG level message file line func (s, w))) h =
           Some (st\<lparr>f_buffer := []\<rparr>)"
  using assms
  by (simp_all add: cpp_Log_good file_content_write_flush streams_write_flush)

lemma cpp_Log_console:
  assumes "\<not> NDEBUG" "\<not> level < cpp_currentLevel s"
  shows "out_chars (snd (Log NDEBUG level message file line func (s, w))) =
           out_chars w @ (if level \<ge> LogLevel_Error then []
              else cpp_LevelToColor level
                   @ spec_line (strftime_HMS (clock w)) (cpp_LevelToString level) file line func message
                   @ RESET_COLOR @ [NL])"
    and "err_chars (snd (Log NDEBUG level message file line func (s, w))) =
           err_chars w @ (if level \<ge> LogLevel_Error
              then cpp_LevelToColor level
                   @ spec_line (strftime_HMS (clock w)) (cpp_LevelToString level) file line func message
                   @ RESET_COLOR @ [NL]
              else [])"
    and "mutex_log (snd (Log NDEBUG level message file line func (s, w))) =
           mutex_log w @ [MLock, MUnlock]"
proof -
  let ?w' = "snd (Log NDEBUG level message file line func (s, w))"
  let ?text = "cpp_LevelToColor level
     @ spec_line (strftime_HMS (clock w)) (cpp_LevelToString level) file line func message
     @ RESET_COLOR @ [NL]"
  have "out_chars ?w' = out_chars w @ (if level \<ge> LogLevel_Error then [] else ?text)
      \<and> err_chars ?w' = err_chars w @ (if level \<ge> LogLevel_Error then ?text else [])
      \<and> mutex_log ?w' = mutex_log w @ [MLock, MUnlock]"
  proof (cases "of_fail (cpp_logFile s)")
    case True
    then show ?thesis by (simp add: cpp_Log_failed [OF assms])
  next
    case good: False
    show ?thesis
    proof (cases "of_handle (cpp_logFile s)")
      case None
      then show ?thesis by (simp add: cpp_Log_closed [OF assms])
    next
      case (Some h)
      show ?thesis by (simp add: cpp_Log_good [OF assms Some good])
    qed
  qed
  then show "out_chars ?w' = out_chars w @ (if level \<ge> LogLevel_Error then [] else ?text)"
    "err_chars ?w' = err_chars w @ (if level \<ge> LogLevel_Error then ?text else [])"
    "mutex_log ?w' = mutex_log w @ [MLock, MUnlock]"
    by simp_all
qed

subsection \<open>The sample run: \<open>Init\<close> with a writable path in the sample environment\<close>

lemma c_sample_Init:
  "RELogger_Init (Some ''app.log'') (c_initial, w0) =
     (\<lparr>logFile = Some 0, currentLevel = LogLevel_Trace, mutexInitialized = True\<rparr>,
      snd (fopen_w ''app.log'' w0))"
  by (simp add: c_Init_opened w0_def c_initial_def)

lemma cpp_sample_Init:
  "Init ''app.log'' (cpp_initial, w0) =
     (\<lparr>cpp_logFile = \<lparr>of_handle = Some 0, of_fail = False\<rparr>, cpp_currentLevel = LogLevel_Trace\<rparr>,
      mutex_call MUnlock (snd (fopen_w ''app.log'' (mutex_call MLock w0))))"
  by (simp add: cpp_Init_opened w0_def cpp_initial_def)

lemma sample_opened:
  "streams (snd (fopen_w ''app.log'' w0)) 0 = Some \<lparr>f_path = ''app.log'', f_buffer = []\<rparr>"
  "file_content (snd (fopen_w ''app.log'' w0)) ''app.log'' = []"
  "out_chars (snd (fopen_w ''app.log'' w0)) = []"
  "err_chars (snd (fopen_w ''app.log'' w0)) = []"
  "clock (snd (fopen_w ''app.log'' w0)) = clock w0"
  "streams (snd (fopen_w ''app.log'' (mutex_call MLock w0))) 0
     = Some \<lparr>f_path = ''app.log'', f_buffer = []\<rparr>"
  "file_content (snd (fopen_w ''app.log'' (mutex_call MLock w0))) ''app.log'' = []"
  "out_chars (snd (fopen_w ''app.log'' (mutex_call MLock w0))) = []"
  "err_chars (snd (fopen_w ''app.log'' (mutex_call MLock w0))) = []"
  "clock (snd (fopen_w ''app.log'' (mutex_call MLock w0))) = clock w0"
  by (simp_all add: fopen_w_def file_content_def) (simp_all add: w0_def)

lemma sample_empty: "out_chars w0 = []" "err_chars w0 = []"
  by (simp_all add: w0_def)

lemma strftime_w0: "strftime_HMS (clock w0) = ''09:05:03''"
  by (simp add: strftime_HMS_def two_digits_def w0_def digit_char_def)

lemma dec_int_42: "dec_int 42 = ''42''"
  by (simp add: dec_int_def dec_nat.simps digit_char_def)

subsection \<open>No escape character in what the logger formats itself\<close>

lemma digit_char_not_ESC: "d < 10 \<Longrightarrow> digit_char d \<noteq> ESC"
proof -
  assume "d < 10"
  then have "digit_char d \<in> set ''0123456789''"
    unfolding digit_char_def by (intro nth_mem) simp
  then show ?thesis by (auto simp: ESC_def)
qed

lemma ESC_notin_dec_nat: "ESC \<notin> set (dec_nat n)"
proof (induction n rule: dec_nat.induct)
  case (1 n)
  show ?case
  proof (cases "n < 10")
    case True
    then show ?thesis
      using digit_char_not_ESC [of n] by (subst dec_nat.simps) auto
  next
    case False
    have "n mod 10 < 10" by simp
    then have "digit_char (n mod 10) \<noteq> ESC" by (rule digit_char_not_ESC)
    with False "1.IH" show ?thesis
      by (subst dec_nat.simps) auto
  qed
qed

lemma ESC_notin_dec_int: "ESC \<notin> set (dec_int i)"
  by (auto simp: dec_int_def ESC_notin_dec_nat) (simp add: ESC_def)

lemma ESC_notin_strftime_HMS: "ESC \<notin> set (strftime_HMS t)"
proof -
  have "ESC \<notin> set (two_digits n)" for n
    using digit_char_not_ESC [of "n div 10 mod 10"] digit_char_not_ESC [of "n mod 10"]
    by (auto simp: two_digits_def)
  then show ?thesis
    by (auto simp: strftime_HMS_def) (simp add: ESC_def)
qed

lemma ESC_notin_LevelToString: "ESC \<notin> set (LevelToString level)"
  by (simp add: LevelToString_def ESC_def)

lemma length_strftime_HMS: "length (strftime_HMS t) = 8"
  by (simp add: strftime_HMS_def two_digits_def)

subsection \<open>\<open>SetLevel\<close> and \<open>GetLevel\<close>, written out\<close>

lemma c_SetLevel: "RELogger_SetLevel level (s, w) = (s\<lparr>currentLevel := level\<rparr>, w)"
  by (simp add: RELogger_SetLevel_def)

lemma cpp_SetLevel:
  "SetLevel level (s, w) = (s\<lparr>cpp_currentLevel := level\<rparr>, mutex_call MUnlock (mutex_call MLock w))"
  by (simp add: SetLevel_def Let_def)

lemma c_GetLevel: "RELogger_GetLevel (s, w) = (currentLevel s, s, w)"
  by (simp add: RELogger_GetLevel_def)

lemma cpp_GetLevel:
  "GetLevel (s, w) = (cpp_currentLevel s, s, mutex_call MUnlock (mutex_call MLock w))"
  by (simp add: GetLevel_def Let_def)

subsection \<open>Console-only logging: calls on a logger with no sink\<close>

lemma c_use_no_sink:
  assumes "logFile (fst x) = None"
  shows "logFile (fst (c_use DEBUG u x)) = None"
    and "disk (snd (c_use DEBUG u x)) = disk (snd x)"
    and "streams (snd (c_use DEBUG u x)) = streams (snd x)"
proof -
  obtain s w where x: "x = (s, w)" by (cases x)
  with assms have n: "logFile s = None" by simp
  show "logFile (fst (c_use DEBUG u x)) = None"
    by (cases u) (simp_all add: x n c_SetLevel c_GetLevel c_Log_state)
  show "disk (snd (c_use DEBUG u x)) = disk (snd x)"
    by (cases u) (simp_all add: x c_SetLevel c_GetLevel c_Log_file_none [OF n])
  show "streams (snd (c_use DEBUG u x)) = streams (snd x)"
    by (cases u) (simp_all add: x c_SetLevel c_GetLevel c_Log_file_none [OF n])
qed

lemma c_uses_no_sink:
  "logFile (fst x) = None \<Longrightarrow>
   logFile (fst (c_uses DEBUG us x)) = None
   \<and> disk (snd (c_uses DEBUG us x)) = disk (snd x)
   \<and> streams (snd (c_uses DEBUG us x)) = streams (snd x)"
  unfolding c_uses_def
proof (induction us arbitrary: x)
  case Nil
  then show ?case by simp
next
  case (Cons u us)
  from Cons.IH [of "c_use DEBUG u x"] c_use_no_sink [OF Cons.prems, of DEBUG u]
  show ?case by simp
qed

lemma cpp_Log_file_closed:
  assumes "of_handle (cpp_logFile s) = None"
  shows "streams (snd (Log NDEBUG level message file line func (s, w))) = streams w"
    and "disk (snd (Log NDEBUG level message file line func (s, w))) = disk w"
  using assms
  by (cases "NDEBUG \<or> level < cpp_currentLevel s"; simp add: cpp_Log_skip cpp_Log_closed)+

lemma cpp_use_no_sink:
  assumes "of_handle (cpp_logFile (fst x)) = None"
  shows "of_handle (cpp_logFile (fst (cpp_use NDEBUG u x))) = None"
    and "disk (snd (cpp_use NDEBUG u x)) = disk (snd x)"
    and "streams (snd (cpp_use NDEBUG u x)) = streams (snd x)"
proof -
  obtain s w where x: "x = (s, w)" by (cases x)
  with assms have n: "of_handle (cpp_logFile s) = None" by simp
  show "of_handle (cpp_logFile (fst (cpp_use NDEBUG u x))) = None"
    by (cases u) (simp_all add: x n cpp_SetLevel cpp_GetLevel cpp_Log_state)
  show "disk (snd (cpp_use NDEBUG u x)) = disk (snd x)"
    by (cases u) (simp_all add: x cpp_SetLevel cpp_GetLevel cpp_Log_file_closed [OF n])
  show "streams (snd (cpp_use NDEBUG u x)) = streams (snd x)"
    by (cases u) (simp_all add: x cpp_SetLevel cpp_GetLevel cpp_Log_file_closed [OF n])
qed

lemma cpp_uses_no_sink:
  "of_handle (cpp_logFile (fst x)) = None \<Longrightarrow>
   of_handle (cpp_logFile (fst (cpp_uses NDEBUG us x))) = None
   \<and> disk (snd (cpp_uses NDEBUG us x)) = disk (snd x)
   \<and> streams (snd (cpp_uses NDEBUG us x)) = streams (snd x)"
  unfolding cpp_uses_def
proof (induction us arbitrary: x)
  case Nil
  then show ?case by simp
next
  case (Cons u us)
  from Cons.IH [of "cpp_use NDEBUG u x"] cpp_use_no_sink [OF Cons.prems, of NDEBUG u]
  show ?case by simp
qed

subsection \<open>The environment up to the mutex history\<close>

lemma io_of_calls [simp]:
  "io_of (mutex_call e w) = io_of w"
  "io_of (write_stdout x w) = write_stdout x (io_of w)"
  "io_of (write_stderr x w) = write_stderr x (io_of w)"
  "io_of (fwrite_h h x w) = fwrite_h h x (io_of w)"
  "io_of (fflush_h h w) = fflush_h h (io_of w)"
  "io_of (fclose_h h w) = fclose_h h (io_of w)"
  "io_of (snd (fopen_w p w)) = snd (fopen_w p (io_of w))"
  by (simp_all add: io_of_def mutex_call_def write_stdout_def write_stderr_def fwrite_h_def
      fflush_h_def fclose_h_def fopen_w_def file_content_def Let_def split: option.splits)

lemma io_of_fields:
  "out_chars (io_of w) = out_chars w"
  "err_chars (io_of w) = err_chars w"
  "streams (io_of w) = streams w"
  "next_handle (io_of w) = next_handle w"
  "disk (io_of w) = disk w"
  "writable (io_of w) = writable w"
  "open_error (io_of w) = open_error w"
  "clock (io_of w) = clock w"
  by (simp_all add: io_of_def)

lemma io_of_eqD:
  assumes "io_of w = io_of w'"
  shows "out_chars w = out_chars w'" "err_chars w = err_chars w'" "streams w = streams w'"
    "next_handle w = next_handle w'" "disk w = disk w'" "writable w = writable w'"
    "open_error w = open_error w'" "clock w = clock w'"
  using arg_cong [OF assms, of out_chars] arg_cong [OF assms, of err_chars]
    arg_cong [OF assms, of streams] arg_cong [OF assms, of next_handle]
    arg_cong [OF assms, of disk] arg_cong [OF assms, of writable]
    arg_cong [OF assms, of open_error] arg_cong [OF assms, of clock]
  by (simp_all add: io_of_fields)

lemma write_stderr_forget: "(write_stderr x w)\<lparr>err_chars := []\<rparr> = w\<lparr>err_chars := []\<rparr>"
  by (simp add: write_stderr_def)

subsection \<open>Each operation, in both variants, from states that agree\<close>

lemma agree_SetLevel:
  "agree x y \<Longrightarrow> agree (RELogger_SetLevel l x) (SetLevel l y)"
  by (cases x; cases y) (simp add: agree_def corresponds_def c_SetLevel cpp_SetLevel)

lemma agree_GetLevel:
  "agree x y \<Longrightarrow>
   fst (RELogger_GetLevel x) = fst (GetLevel y) \<and> agree (snd (RELogger_GetLevel x)) (snd (GetLevel y))"
  by (cases x; cases y) (simp add: agree_def corresponds_def c_GetLevel cpp_GetLevel)

lemma agree_Shutdown:
  "agree x y \<Longrightarrow> agree (RELogger_Shutdown x) (Shutdown y)"
proof -
  assume a: "agree x y"
  obtain c wc where x: "x = (c, wc)" by (cases x)
  obtain p wp where y: "y = (p, wp)" by (cases y)
  from a have l: "currentLevel c = cpp_currentLevel p" and f: "logFile c = of_handle (cpp_logFile p)"
    and w: "io_of wc = io_of wp"
    by (simp_all add: agree_def corresponds_def x y)
  show ?thesis
  proof (cases "logFile c")
    case None
    with f have "of_handle (cpp_logFile p) = None" by simp
    with None l w show ?thesis
      by (simp add: x y agree_def corresponds_def c_Shutdown_closed cpp_Shutdown_closed
          ofstream_is_open_def)
  next
    case (Some h)
    with f have "of_handle (cpp_logFile p) = Some h" by simp
    with Some l w show ?thesis
      by (simp add: x y agree_def corresponds_def c_Shutdown_open cpp_Shutdown_open
          ofstream_is_open_def)
  qed
qed

lemma agree_Log:
  "agree x y \<Longrightarrow>
   agree (RELogger_Log (\<not> NDEBUG) level message file line func x)
         (Log NDEBUG level message file line func y)"
proof -
  assume a: "agree x y"
  obtain c wc where x: "x = (c, wc)" by (cases x)
  obtain p wp where y: "y = (p, wp)" by (cases y)
  from a have l: "currentLevel c = cpp_currentLevel p" and f: "logFile c = of_handle (cpp_logFile p)"
    and g: "of_handle (cpp_logFile p) \<noteq> None \<Longrightarrow> \<not> of_fail (cpp_logFile p)"
    and w: "io_of wc = io_of wp"
    by (simp_all add: agree_def corresponds_def x y ofstream_is_open_def)
  have st: "corresponds (fst (RELogger_Log (\<not> NDEBUG) level message file line func (c, wc)))
                        (fst (Log NDEBUG level message file line func (p, wp)))"
    using a by (simp add: c_Log_state cpp_Log_state agree_def x y)
  have "io_of (snd (RELogger_Log (\<not> NDEBUG) level message file line func (c, wc)))
        = io_of (snd (Log NDEBUG level message file line func (p, wp)))"
  proof (cases "NDEBUG \<or> level < cpp_currentLevel p")
    case True
    then show ?thesis
      using l w by (auto simp: c_Log_skip cpp_Log_skip)
  next
    case False
    then have pa: "\<not> NDEBUG" "\<not> level < cpp_currentLevel p" by simp_all
    with l have ca: "\<not> NDEBUG" "\<not> level < currentLevel c" by simp_all
    show ?thesis
    proof (cases "of_handle (cpp_logFile p)")
      case None
      with f have "logFile c = None" by simp
      then show ?thesis
        using None w io_of_eqD(8) [OF w]
        by (simp add: c_Log_pass [OF ca] cpp_Log_closed [OF pa] cpp_Level_tables)
    next
      case (Some h)
      with g have good: "\<not> of_fail (cpp_logFile p)" by simp
      from Some f have "logFile c = Some h" by simp
      then show ?thesis
        using w io_of_eqD(8) [OF w]
        by (simp add: c_Log_pass [OF ca] cpp_Log_good [OF pa Some good] cpp_Level_tables)
    qed
  qed
  with st show ?thesis
    by (simp add: agree_def x y)
qed

lemma agree_Init_no_path:
  "agree x y \<Longrightarrow> agree (RELogger_Init (Some []) x) (Init [] y)"
  by (cases x; cases y)
    (simp add: agree_def corresponds_def c_Init_no_path cpp_Init_no_path)

lemma agree_Init_opened:
  assumes "agree x y" "path \<noteq> []" "logFile (fst x) = None" "writable (snd x) path"
  shows "agree (RELogger_Init (Some path) x) (Init path y)"
proof -
  obtain c wc where x: "x = (c, wc)" by (cases x)
  obtain p wp where y: "y = (p, wp)" by (cases y)
  from assms have l: "currentLevel c = cpp_currentLevel p"
    and f: "of_handle (cpp_logFile p) = None" and w: "io_of wc = io_of wp"
    and wr: "writable wc path" "writable wp path"
    using io_of_eqD(6) [of wc wp]
    by (simp_all add: agree_def corresponds_def x y)
  show ?thesis
    using l w io_of_eqD(4) [OF w]
    by (simp add: x y agree_def corresponds_def c_Init_opened [OF assms(2) wr(1)]
        cpp_Init_opened [OF assms(2) f wr(2)] ofstream_is_open_def)
qed

lemma agree_Init_failed:
  assumes "agree x y" "path \<noteq> []" "logFile (fst x) = None" "\<not> writable (snd x) path"
  shows "corresponds (fst (RELogger_Init (Some path) x)) (fst (Init path y))"
    and "(io_of (snd (RELogger_Init (Some path) x)))\<lparr>err_chars := []\<rparr>
         = (io_of (snd (Init path y)))\<lparr>err_chars := []\<rparr>"
proof -
  obtain c wc where x: "x = (c, wc)" by (cases x)
  obtain p wp where y: "y = (p, wp)" by (cases y)
  from assms have l: "currentLevel c = cpp_currentLevel p"
    and f: "of_handle (cpp_logFile p) = None" and w: "io_of wc = io_of wp"
    and wr: "\<not> writable wc path" "\<not> writable wp path"
    using io_of_eqD(6) [of wc wp]
    by (simp_all add: agree_def corresponds_def x y)
  from wr(2) have wr': "of_handle (cpp_logFile p) \<noteq> None \<or> \<not> writable wp path" by simp
  show "corresponds (fst (RELogger_Init (Some path) x)) (fst (Init path y))"
    using l f
    by (simp add: x y corresponds_def c_Init_failed [OF assms(2) wr(1)]
        cpp_Init_failed [OF assms(2) wr'] ofstream_is_open_def)
  show "(io_of (snd (RELogger_Init (Some path) x)))\<lparr>err_chars := []\<rparr>
         = (io_of (snd (Init path y)))\<lparr>err_chars := []\<rparr>"
    using w
    by (simp add: x y c_Init_failed [OF assms(2) wr(1)] cpp_Init_failed [OF assms(2) wr']
        write_stderr_forget)
qed

lemma agree_initial: "agree (c_initial, w) (cpp_initial, w)"
  by (simp add: agree_def corresponds_def c_initial_def cpp_initial_def ofstream_is_open_def)

lemma agreeD:
  assumes "agree x y"
  shows "currentLevel (fst x) = cpp_currentLevel (fst y)"
    "logFile (fst x) = of_handle (cpp_logFile (fst y))"
    "out_chars (snd x) = out_chars (snd y)" "err_chars (snd x) = err_chars (snd y)"
    "disk (snd x) = disk (snd y)" "streams (snd x) = streams (snd y)"
  using assms io_of_eqD [of "snd x" "snd y"]
  by (simp_all add: agree_def corresponds_def)

subsection \<open>Well-formed states are kept\<close>

lemma c_wf_initial: "c_wf (c_initial, w)"
  by (simp add: c_wf_def c_initial_def)

lemma c_wf_sink:
  "c_wf (s, w) \<Longrightarrow> logFile s = Some h \<Longrightarrow> \<exists>st. streams w h = Some st \<and> f_buffer st = []"
  by (auto simp: c_wf_def split: option.splits)

lemma c_wf_Init: "c_wf x \<Longrightarrow> c_wf (RELogger_Init logFilePath x)"
proof -
  assume a: "c_wf x"
  obtain s w where x: "x = (s, w)" by (cases x)
  consider "logFilePath = None \<or> logFilePath = Some []"
    | p where "logFilePath = Some p" "p \<noteq> []" "writable w p"
    | p where "logFilePath = Some p" "p \<noteq> []" "\<not> writable w p"
    by (cases logFilePath) auto
  then show ?thesis
  proof cases
    case 1
    with a show ?thesis
      by (simp add: x c_Init_no_path c_wf_def)
  next
    case 2
    then show ?thesis
      by (simp add: x c_Init_opened c_wf_def fopen_w_def)
  next
    case 3
    then show ?thesis
      by (simp add: x c_Init_failed c_wf_def)
  qed
qed

lemma c_wf_Shutdown: "c_wf (RELogger_Shutdown x)"
proof -
  obtain s w where x: "x = (s, w)" by (cases x)
  show ?thesis
    by (cases "logFile s") (simp_all add: x c_Shutdown_closed c_Shutdown_open c_wf_def)
qed

lemma c_wf_SetLevel: "c_wf x \<Longrightarrow> c_wf (RELogger_SetLevel level x)"
  by (cases x) (simp add: c_SetLevel c_wf_def)

lemma c_wf_GetLevel: "c_wf x \<Longrightarrow> c_wf (snd (RELogger_GetLevel x))"
  by (cases x) (simp add: c_GetLevel)

lemma c_wf_Log: "c_wf x \<Longrightarrow> c_wf (RELogger_Log DEBUG level message file line func x)"
proof -
  assume a: "c_wf x"
  obtain s w where x: "x = (s, w)" by (cases x)
  show ?thesis
  proof (cases "DEBUG \<and> \<not> level < currentLevel s")
    case False
    with a show ?thesis by (auto simp: x c_Log_skip)
  next
    case True
    then have p: "DEBUG" "\<not> level < currentLevel s" by simp_all
    show ?thesis
    proof (cases "logFile s")
      case None
      then show ?thesis
        by (simp add: x c_wf_def c_Log_state [of DEBUG level message "file" line func s w, simplified]
            c_Log_pass [OF p])
    next
      case (Some h)
      with a obtain st where st: "streams w h = Some st"
        using c_wf_sink [of s w h] by (auto simp: x)
      from c_Log_sink(2) [OF p Some st] Some show ?thesis
        by (simp add: x c_wf_def c_Log_pass [OF p])
    qed
  qed
qed

lemma cpp_wf_initial: "cpp_wf (cpp_initial, w)"
  by (simp add: cpp_wf_def cpp_initial_def)

lemma cpp_wf_sink:
  "cpp_wf (s, w) \<Longrightarrow> of_handle (cpp_logFile s) = Some h \<Longrightarrow>
   \<not> of_fail (cpp_logFile s) \<and> (\<exists>st. streams w h = Some st \<and> f_buffer st = [])"
  by (auto simp: cpp_wf_def split: option.splits)

lemma cpp_wf_Init:
  "cpp_wf x \<Longrightarrow> path = [] \<or> of_handle (cpp_logFile (fst x)) = None \<Longrightarrow> cpp_wf (Init path x)"
proof -
  assume a: "cpp_wf x" and c: "path = [] \<or> of_handle (cpp_logFile (fst x)) = None"
  obtain s w where x: "x = (s, w)" by (cases x)
  consider "path = []"
    | "path \<noteq> []" "of_handle (cpp_logFile s) = None" "writable w path"
    | "path \<noteq> []" "of_handle (cpp_logFile s) = None" "\<not> writable w path"
    using c by (auto simp: x)
  then show ?thesis
  proof cases
    case 1
    with a show ?thesis
      by (auto simp: x cpp_Init_no_path cpp_wf_def split: option.splits)
  next
    case 2
    then show ?thesis
      by (simp add: x cpp_Init_opened cpp_wf_def fopen_w_def)
  next
    case 3
    then show ?thesis
      by (simp add: x cpp_Init_failed cpp_wf_def)
  qed
qed

lemma cpp_wf_Shutdown: "cpp_wf (Shutdown x)"
proof -
  obtain s w where x: "x = (s, w)" by (cases x)
  show ?thesis
    by (cases "of_handle (cpp_logFile s)")
      (simp_all add: x cpp_Shutdown_closed cpp_Shutdown_open cpp_wf_def)
qed

lemma cpp_wf_SetLevel: "cpp_wf x \<Longrightarrow> cpp_wf (SetLevel level x)"
  by (cases x) (auto simp: cpp_SetLevel cpp_wf_def split: option.splits)

lemma cpp_wf_GetLevel: "cpp_wf x \<Longrightarrow> cpp_wf (snd (GetLevel x))"
  by (cases x) (auto simp: cpp_GetLevel cpp_wf_def split: option.splits)

lemma cpp_wf_Log: "cpp_wf x \<Longrightarrow> cpp_wf (Log NDEBUG level message file line func x)"
proof -
  assume a: "cpp_wf x"
  obtain s w where x: "x = (s, w)" by (cases x)
  show ?thesis
  proof (cases "NDEBUG \<or> level < cpp_currentLevel s")
    case True
    with a show ?thesis by (simp add: x cpp_Log_skip)
  next
    case False
    then have p: "\<not> NDEBUG" "\<not> level < cpp_currentLevel s" by simp_all
    show ?thesis
    proof (cases "of_handle (cpp_logFile s)")
      case None
      then show ?thesis
        by (simp add: x cpp_wf_def cpp_Log_closed [OF p])
    next
      case (Some h)
      with a obtain st where good: "\<not> of_fail (cpp_logFile s)" and st: "streams w h = Some st"
        using cpp_wf_sink [of s w h] by (auto simp: x)
      from cpp_Log_sink(2) [OF p Some good st] Some good show ?thesis
        by (simp add: x cpp_wf_def cpp_Log_good [OF p Some good])
    qed
  qed
qed

text \<open>Outside the contract: \<open>Init\<close> with a path while a sink is open. The C variant
  opens the new file and forgets the old stream; the C++ variant keeps the old stream,
  sets its error state, and from then on \<open>Log\<close> writes to the console only.\<close>

lemma cpp_Init_on_open_sink:
  assumes "path \<noteq> []" "of_handle (cpp_logFile s) = Some h"
  shows "of_handle (cpp_logFile (fst (Init path (s, w)))) = Some h"
    and "of_fail (cpp_logFile (fst (Init path (s, w))))"
    and "disk (snd (Log NDEBUG level message file line func (Init path (s, w)))) = disk w"
proof -
  from assms(2) have f: "of_handle (cpp_logFile s) \<noteq> None \<or> \<not> writable w path" by simp
  note i = cpp_Init_failed [OF assms(1) f]
  show "of_handle (cpp_logFile (fst (Init path (s, w)))) = Some h"
    "of_fail (cpp_logFile (fst (Init path (s, w))))"
    by (simp_all add: i assms(2))
  show "disk (snd (Log NDEBUG level message file line func (Init path (s, w)))) = disk w"
    by (cases "NDEBUG \<or> level < cpp_currentLevel s")
      (simp_all add: i cpp_Log_skip cpp_Log_failed)
qed

section \<open>The claims\<close>

subsection \<open>C1: the filter\<close>

text \<open>
  C1, as stated, asks for no output at every severity \<open>a <= b\<close> after \<open>SetLevel(b)\<close>, and
  for output at \<open>b\<close>. At \<open>a = b\<close> the two contradict each other, and the code logs:
  the test is \<open>level < currentLevel\<close>. After \<open>SetLevel(Info)\<close>, a call at \<open>Info\<close>
  writes its line to standard output, in both variants.
\<close>

theorem C1_counterexample:
  "LogLevel_Info \<le> LogLevel_Info
   \<and> out_chars (snd (RELogger_SetLevel LogLevel_Info (c_initial, w0))) = []
   \<and> out_chars (snd (RELogger_Log True LogLevel_Info ''ready'' ''main.c'' 42 ''main''
                       (RELogger_SetLevel LogLevel_Info (c_initial, w0))))
      = ESC # ''[32m[09:05:03] INFO main.c:42 (main) - ready'' @ ESC # ''[0m'' @ [NL]
   \<and> out_chars (snd (SetLevel LogLevel_Info (cpp_initial, w0))) = []
   \<and> out_chars (snd (Log False LogLevel_Info ''ready'' ''main.c'' 42 ''main''
                       (SetLevel LogLevel_Info (cpp_initial, w0))))
      = ESC # ''[32m[09:05:03] INFO main.c:42 (main) - ready'' @ ESC # ''[0m'' @ [NL]"
  by (simp add: c_SetLevel cpp_SetLevel c_Log_console cpp_Log_console sample_empty strftime_w0
      dec_int_42 spec_line_def LogLevel_defs LevelToColor_def LevelToString_def
      cpp_LevelToColor_def cpp_LevelToString_def RESET_COLOR_def)

text \<open>
  C1, amended. After \<open>SetLevel(b)\<close>, a \<open>Log\<close> call at a severity \<open>a < b\<close> returns the
  logger and the whole environment as \<open>SetLevel\<close> left them: nothing on either console
  stream, nothing in the sink, no call on the mutex. A \<open>Log\<close> call at a severity
  \<open>c >= b\<close>, in a build that compiles the body of \<open>Log\<close>, appends its line to its console
  stream and, when the file sink is open (in the C++ variant: with no error state on
  the stream), its record to the file. Both variants.
\<close>

theorem C1_filtering:
  "(a < b \<longrightarrow>
      RELogger_Log DEBUG a message file line func (RELogger_SetLevel b (s, w))
        = RELogger_SetLevel b (s, w)
      \<and> Log NDEBUG a message file line func (SetLevel b (s', w)) = SetLevel b (s', w))
   \<and> (DEBUG \<and> b \<le> c \<longrightarrow>
      (let w1 = snd (RELogger_SetLevel b (s, w));
           w2 = snd (RELogger_Log DEBUG c message file line func (RELogger_SetLevel b (s, w)));
           plain = spec_line (strftime_HMS (clock w)) (LevelToString c) file line func message
       in (if LogLevel_Error \<le> c then err_chars w2 else out_chars w2) =
            (if LogLevel_Error \<le> c then err_chars w1 else out_chars w1)
            @ LevelToColor c @ plain @ RESET_COLOR @ [NL]
          \<and> (logFile s = Some h \<and> streams w h = Some st \<longrightarrow>
               file_content w2 (f_path st) = file_content w1 (f_path st) @ f_buffer st @ plain @ [NL])))
   \<and> (\<not> NDEBUG \<and> b \<le> c \<longrightarrow>
      (let w1 = snd (SetLevel b (s', w));
           w2 = snd (Log NDEBUG c message file line func (SetLevel b (s', w)));
           plain = spec_line (strftime_HMS (clock w)) (cpp_LevelToString c) file line func message
       in (if LogLevel_Error \<le> c then err_chars w2 else out_chars w2) =
            (if LogLevel_Error \<le> c then err_chars w1 else out_chars w1)
            @ cpp_LevelToColor c @ plain @ RESET_COLOR @ [NL]
          \<and> (of_handle (cpp_logFile s') = Some h \<and> \<not> of_fail (cpp_logFile s')
               \<and> streams w h = Some st \<longrightarrow>
               file_content w2 (f_path st) = file_content w1 (f_path st) @ f_buffer st @ plain @ [NL])))"
proof -
  have below: "a < b \<longrightarrow>
      RELogger_Log DEBUG a message file line func (RELogger_SetLevel b (s, w))
        = RELogger_SetLevel b (s, w)
      \<and> Log NDEBUG a message file line func (SetLevel b (s', w)) = SetLevel b (s', w)"
    by (simp add: c_SetLevel cpp_SetLevel c_Log_skip cpp_Log_skip)
  have c: "DEBUG \<and> b \<le> c \<longrightarrow>
      (let w1 = snd (RELogger_SetLevel b (s, w));
           w2 = snd (RELogger_Log DEBUG c message file line func (RELogger_SetLevel b (s, w)));
           plain = spec_line (strftime_HMS (clock w)) (LevelToString c) file line func message
       in (if LogLevel_Error \<le> c then err_chars w2 else out_chars w2) =
            (if LogLevel_Error \<le> c then err_chars w1 else out_chars w1)
            @ LevelToColor c @ plain @ RESET_COLOR @ [NL]
          \<and> (logFile s = Some h \<and> streams w h = Some st \<longrightarrow>
               file_content w2 (f_path st) = file_content w1 (f_path st) @ f_buffer st @ plain @ [NL]))"
    by (simp add: c_SetLevel c_Log_console c_Log_sink Let_def)
  have p: "\<not> NDEBUG \<and> b \<le> c \<longrightarrow>
      (let w1 = snd (SetLevel b (s', w));
           w2 = snd (Log NDEBUG c message file line func (SetLevel b (s', w)));
           plain = spec_line (strftime_HMS (clock w)) (cpp_LevelToString c) file line func message
       in (if LogLevel_Error \<le> c then err_chars w2 else out_chars w2) =
            (if LogLevel_Error \<le> c then err_chars w1 else out_chars w1)
            @ cpp_LevelToColor c @ plain @ RESET_COLOR @ [NL]
          \<and> (of_handle (cpp_logFile s') = Some h \<and> \<not> of_fail (cpp_logFile s')
               \<and> streams w h = Some st \<longrightarrow>
               file_content w2 (f_path st) = file_content w1 (f_path st) @ f_buffer st @ plain @ [NL]))"
    by (simp add: cpp_SetLevel cpp_Log_console cpp_Log_sink Let_def)
  from below c p show ?thesis by blast
qed

theorem C1_filtering_witness:
  "RELogger_Log True LogLevel_Debug ''tick'' ''main.c'' 42 ''main''
      (RELogger_SetLevel LogLevel_Info (RELogger_Init (Some ''app.log'') (c_initial, w0)))
     = RELogger_SetLevel LogLevel_Info (RELogger_Init (Some ''app.log'') (c_initial, w0))
   \<and> Log False LogLevel_Debug ''tick'' ''main.c'' 42 ''main''
      (SetLevel LogLevel_Info (Init ''app.log'' (cpp_initial, w0)))
     = SetLevel LogLevel_Info (Init ''app.log'' (cpp_initial, w0))
   \<and> err_chars (snd (RELogger_Log True LogLevel_Error ''disk full'' ''x.c'' 42 ''save''
      (RELogger_SetLevel LogLevel_Info (RELogger_Init (Some ''app.log'') (c_initial, w0)))))
     = ESC # ''[31m[09:05:03] ERROR x.c:42 (save) - disk full'' @ ESC # ''[0m'' @ [NL]
   \<and> file_content (snd (RELogger_Log True LogLevel_Error ''disk full'' ''x.c'' 42 ''save''
      (RELogger_SetLevel LogLevel_Info (RELogger_Init (Some ''app.log'') (c_initial, w0)))))
        ''app.log''
     = ''[09:05:03] ERROR x.c:42 (save) - disk full'' @ [NL]
   \<and> out_chars (snd (Log False LogLevel_Info ''ready'' ''x.c'' 42 ''save''
      (SetLevel LogLevel_Info (Init ''app.log'' (cpp_initial, w0)))))
     = ESC # ''[32m[09:05:03] INFO x.c:42 (save) - ready'' @ ESC # ''[0m'' @ [NL]
   \<and> file_content (snd (Log False LogLevel_Info ''ready'' ''x.c'' 42 ''save''
      (SetLevel LogLevel_Info (Init ''app.log'' (cpp_initial, w0)))))
        ''app.log''
     = ''[09:05:03] INFO x.c:42 (save) - ready'' @ [NL]"
  unfolding c_sample_Init cpp_sample_Init
  using C1_filtering [of LogLevel_Debug LogLevel_Info True "''tick''" "''main.c''" 42 "''main''"
        "\<lparr>logFile = Some 0, currentLevel = LogLevel_Trace, mutexInitialized = True\<rparr>"
        "snd (fopen_w ''app.log'' w0)" False
        "\<lparr>cpp_logFile = \<lparr>of_handle = Some 0, of_fail = False\<rparr>, cpp_currentLevel = LogLevel_Trace\<rparr>"
        LogLevel_Info 0 "\<lparr>f_path = ''app.log'', f_buffer = []\<rparr>"]
    C1_filtering [of LogLevel_Debug LogLevel_Info True "''tick''" "''main.c''" 42 "''main''"
        "\<lparr>logFile = Some 0, currentLevel = LogLevel_Trace, mutexInitialized = True\<rparr>"
        "mutex_call MUnlock (snd (fopen_w ''app.log'' (mutex_call MLock w0)))" False
        "\<lparr>cpp_logFile = \<lparr>of_handle = Some 0, of_fail = False\<rparr>, cpp_currentLevel = LogLevel_Trace\<rparr>"
        LogLevel_Info 0 "\<lparr>f_path = ''app.log'', f_buffer = []\<rparr>"]
    C1_filtering [of LogLevel_Debug LogLevel_Info True "''disk full''" "''x.c''" 42 "''save''"
        "\<lparr>logFile = Some 0, currentLevel = LogLevel_Trace, mutexInitialized = True\<rparr>"
        "snd (fopen_w ''app.log'' w0)" False
        "\<lparr>cpp_logFile = \<lparr>of_handle = Some 0, of_fail = False\<rparr>, cpp_currentLevel = LogLevel_Trace\<rparr>"
        LogLevel_Error 0 "\<lparr>f_path = ''app.log'', f_buffer = []\<rparr>"]
    C1_filtering [of LogLevel_Debug LogLevel_Info True "''ready''" "''x.c''" 42 "''save''"
        "\<lparr>logFile = Some 0, currentLevel = LogLevel_Trace, mutexInitialized = True\<rparr>"
        "mutex_call MUnlock (snd (fopen_w ''app.log'' (mutex_call MLock w0)))" False
        "\<lparr>cpp_logFile = \<lparr>of_handle = Some 0, of_fail = False\<rparr>, cpp_currentLevel = LogLevel_Trace\<rparr>"
        LogLevel_Info 0 "\<lparr>f_path = ''app.log'', f_buffer = []\<rparr>"]
  by (simp add: Let_def c_SetLevel cpp_SetLevel sample_opened strftime_w0 dec_int_42 spec_line_def
      LogLevel_defs LevelToColor_def LevelToString_def cpp_LevelToColor_def cpp_LevelToString_def
      RESET_COLOR_def)

subsection \<open>C2: the line in the file\<close>

text \<open>
  C2. Take a state between two calls (\<open>c_wf\<close>, \<open>cpp_wf\<close>) whose file sink is open, and a
  \<open>Log\<close> call that passes the filter, in a build that compiles the body of \<open>Log\<close>. The
  call appends to the sink's file on disk exactly
  \<^verbatim>\<open>[HH:MM:SS] LEVELNAME sourceFile:sourceLine (functionName) - message\<close> and a newline.
  The time takes eight characters. The line has no escape character unless the
  caller's strings bring one, so it has no colour code. For level Error, message
  "disk full", file "x.c", line 42 and function "save" the line is, after the time,
  \<^verbatim>\<open>ERROR x.c:42 (save) - disk full\<close>. Both variants.
\<close>

theorem C2_file_line:
  "(c_wf (s, w) \<and> DEBUG \<and> \<not> level < currentLevel s \<and> logFile s = Some h \<longrightarrow>
      (\<exists>st. streams w h = Some st
         \<and> file_content (snd (RELogger_Log DEBUG level message file line func (s, w))) (f_path st) =
             file_content w (f_path st)
             @ ''['' @ strftime_HMS (clock w) @ ''] '' @ LevelToString level @ '' '' @ file
             @ '':'' @ dec_int line @ '' ('' @ func @ '') - '' @ message @ [NL]))
   \<and> (cpp_wf (s', w) \<and> \<not> NDEBUG \<and> \<not> level < cpp_currentLevel s'
       \<and> of_handle (cpp_logFile s') = Some h \<longrightarrow>
      (\<exists>st. streams w h = Some st
         \<and> file_content (snd (Log NDEBUG level message file line func (s', w))) (f_path st) =
             file_content w (f_path st)
             @ ''['' @ strftime_HMS (clock w) @ ''] '' @ cpp_LevelToString level @ '' '' @ file
             @ '':'' @ dec_int line @ '' ('' @ func @ '') - '' @ message @ [NL]))
   \<and> length (strftime_HMS (clock w)) = 8
   \<and> (ESC \<notin> set file \<and> ESC \<notin> set func \<and> ESC \<notin> set message \<longrightarrow>
        ESC \<notin> set (''['' @ strftime_HMS (clock w) @ ''] '' @ LevelToString level @ '' '' @ file
                     @ '':'' @ dec_int line @ '' ('' @ func @ '') - '' @ message @ [NL]))
   \<and> ''['' @ strftime_HMS (clock w) @ ''] '' @ LevelToString LogLevel_Error @ '' '' @ ''x.c''
        @ '':'' @ dec_int 42 @ '' ('' @ ''save'' @ '') - '' @ ''disk full'' @ [NL]
      = ''['' @ strftime_HMS (clock w) @ ''] '' @ ''ERROR x.c:42 (save) - disk full'' @ [NL]
   \<and> cpp_LevelToString = LevelToString"
proof -
  have c: "c_wf (s, w) \<and> DEBUG \<and> \<not> level < currentLevel s \<and> logFile s = Some h \<longrightarrow>
      (\<exists>st. streams w h = Some st
         \<and> file_content (snd (RELogger_Log DEBUG level message file line func (s, w))) (f_path st) =
             file_content w (f_path st)
             @ ''['' @ strftime_HMS (clock w) @ ''] '' @ LevelToString level @ '' '' @ file
             @ '':'' @ dec_int line @ '' ('' @ func @ '') - '' @ message @ [NL])"
  proof (intro impI, elim conjE)
    assume a: "c_wf (s, w)" "DEBUG" "\<not> level < currentLevel s" "logFile s = Some h"
    from c_wf_sink [OF a(1) a(4)] obtain st where st: "streams w h = Some st" "f_buffer st = []"
      by blast
    from c_Log_sink(1) [OF a(2) a(3) a(4) st(1)] st show "\<exists>st. streams w h = Some st
         \<and> file_content (snd (RELogger_Log DEBUG level message file line func (s, w))) (f_path st) =
             file_content w (f_path st)
             @ ''['' @ strftime_HMS (clock w) @ ''] '' @ LevelToString level @ '' '' @ file
             @ '':'' @ dec_int line @ '' ('' @ func @ '') - '' @ message @ [NL]"
      by (simp add: spec_line_def)
  qed
  have p: "cpp_wf (s', w) \<and> \<not> NDEBUG \<and> \<not> level < cpp_currentLevel s'
       \<and> of_handle (cpp_logFile s') = Some h \<longrightarrow>
      (\<exists>st. streams w h = Some st
         \<and> file_content (snd (Log NDEBUG level message file line func (s', w))) (f_path st) =
             file_content w (f_path st)
             @ ''['' @ strftime_HMS (clock w) @ ''] '' @ cpp_LevelToString level @ '' '' @ file
             @ '':'' @ dec_int line @ '' ('' @ func @ '') - '' @ message @ [NL])"
  proof (intro impI, elim conjE)
    assume a: "cpp_wf (s', w)" "\<not> NDEBUG" "\<not> level < cpp_currentLevel s'"
      "of_handle (cpp_logFile s') = Some h"
    from cpp_wf_sink [OF a(1) a(4)] obtain st where good: "\<not> of_fail (cpp_logFile s')"
      and st: "streams w h = Some st" "f_buffer st = []"
      by blast
    from cpp_Log_sink(1) [OF a(2) a(3) a(4) good st(1)] st show "\<exists>st. streams w h = Some st
         \<and> file_content (snd (Log NDEBUG level message file line func (s', w))) (f_path st) =
             file_content w (f_path st)
             @ ''['' @ strftime_HMS (clock w) @ ''] '' @ cpp_LevelToString level @ '' '' @ file
             @ '':'' @ dec_int line @ '' ('' @ func @ '') - '' @ message @ [NL]"
      by (simp add: spec_line_def)
  qed
  have e: "ESC \<notin> set file \<and> ESC \<notin> set func \<and> ESC \<notin> set message \<longrightarrow>
        ESC \<notin> set (''['' @ strftime_HMS (clock w) @ ''] '' @ LevelToString level @ '' '' @ file
                     @ '':'' @ dec_int line @ '' ('' @ func @ '') - '' @ message @ [NL])"
    by (simp add: ESC_notin_strftime_HMS ESC_notin_LevelToString ESC_notin_dec_int)
      (simp add: ESC_def NL_def)
  have x: "''['' @ strftime_HMS (clock w) @ ''] '' @ LevelToString LogLevel_Error @ '' '' @ ''x.c''
        @ '':'' @ dec_int 42 @ '' ('' @ ''save'' @ '') - '' @ ''disk full'' @ [NL]
      = ''['' @ strftime_HMS (clock w) @ ''] '' @ ''ERROR x.c:42 (save) - disk full'' @ [NL]"
    by (simp add: LevelToString_def LogLevel_defs dec_int_42)
  from c p e x length_strftime_HMS [of "clock w"] cpp_Level_tables(1) show ?thesis
    by blast
qed

theorem C2_file_line_witness:
  "c_wf (RELogger_Init (Some ''app.log'') (c_initial, w0))
   \<and> file_content (snd (RELogger_Log True LogLevel_Error ''disk full'' ''x.c'' 42 ''save''
                     (RELogger_Init (Some ''app.log'') (c_initial, w0)))) ''app.log''
     = ''[09:05:03] ERROR x.c:42 (save) - disk full'' @ [NL]
   \<and> cpp_wf (Init ''app.log'' (cpp_initial, w0))
   \<and> file_content (snd (Log False LogLevel_Error ''disk full'' ''x.c'' 42 ''save''
                     (Init ''app.log'' (cpp_initial, w0)))) ''app.log''
     = ''[09:05:03] ERROR x.c:42 (save) - disk full'' @ [NL]
   \<and> ESC \<notin> set (''[09:05:03] ERROR x.c:42 (save) - disk full'' @ [NL])"
proof -
  have cw: "c_wf (RELogger_Init (Some ''app.log'') (c_initial, w0))"
    by (rule c_wf_Init [OF c_wf_initial])
  have pw: "cpp_wf (Init ''app.log'' (cpp_initial, w0))"
    by (rule cpp_wf_Init [OF cpp_wf_initial]) (simp add: cpp_initial_def)
  show ?thesis
    using cw pw
    unfolding c_sample_Init cpp_sample_Init
    using C2_file_line [of
        "\<lparr>logFile = Some 0, currentLevel = LogLevel_Trace, mutexInitialized = True\<rparr>"
        "snd (fopen_w ''app.log'' w0)" True LogLevel_Error 0
        "''disk full''" "''x.c''" 42 "''save''" cpp_initial True]
      C2_file_line [of c_initial
        "mutex_call MUnlock (snd (fopen_w ''app.log'' (mutex_call MLock w0)))" True LogLevel_Error 0
        "''disk full''" "''x.c''" 42 "''save''"
        "\<lparr>cpp_logFile = \<lparr>of_handle = Some 0, of_fail = False\<rparr>, cpp_currentLevel = LogLevel_Trace\<rparr>"
        False]
    by (simp add: sample_opened strftime_w0 dec_int_42 LogLevel_defs LevelToString_def
        cpp_LevelToString_def c_initial_def cpp_initial_def)
      (simp add: ESC_def NL_def)
qed

subsection \<open>C3: the two variants side by side\<close>

text \<open>
  C3, as stated, makes every operation of the two variants produce the same console
  output. When the file cannot be opened, \<open>RELogger_Init\<close> prints
  \<^verbatim>\<open>Warning: Could not open log file '<path>' (error: <strerror>)\<close> and
  \<open>RELogger::Init\<close> prints \<^verbatim>\<open>[LOGGER ERROR] Failed to open log file: <path>\<close> in red:
  from the initial states and the same environment, the two write different text to
  standard error.
\<close>

theorem C3_counterexample:
  "err_chars (snd (RELogger_Init (Some ''/root/app.log'') (c_initial, w0)))
     = ''Warning: Could not open log file '' @ [QUOTE] @ ''/root/app.log'' @ [QUOTE]
       @ '' (error: Permission denied)'' @ [NL]
   \<and> err_chars (snd (Init ''/root/app.log'' (cpp_initial, w0)))
     = ESC # ''[31m[LOGGER ERROR] Failed to open log file: /root/app.log'' @ ESC # ''[0m'' @ [NL]
   \<and> err_chars (snd (RELogger_Init (Some ''/root/app.log'') (c_initial, w0)))
     \<noteq> err_chars (snd (Init ''/root/app.log'' (cpp_initial, w0)))"
proof -
  have nw: "\<not> writable w0 ''/root/app.log''"
    "open_error w0 ''/root/app.log'' = ''Permission denied''"
    by (simp_all add: w0_def)
  have c: "err_chars (snd (RELogger_Init (Some ''/root/app.log'') (c_initial, w0)))
     = ''Warning: Could not open log file '' @ [QUOTE] @ ''/root/app.log'' @ [QUOTE]
       @ '' (error: Permission denied)'' @ [NL]"
    using c_Init_failed [OF _ nw(1), of c_initial] by (simp add: nw(2) sample_empty)
  have p: "err_chars (snd (Init ''/root/app.log'' (cpp_initial, w0)))
     = ESC # ''[31m[LOGGER ERROR] Failed to open log file: /root/app.log'' @ ESC # ''[0m'' @ [NL]"
    using cpp_Init_failed [of "''/root/app.log''" cpp_initial w0] nw(1)
    by (simp add: sample_empty)
  show ?thesis
    unfolding c p by (simp add: ESC_def)
qed

text \<open>
  C3, amended. Take a state of the C variant and a state of the C++ variant that agree:
  the same threshold, the same sink, the same console streams, open streams and disk
  (the initial states do, in any environment). Then \<open>SetLevel\<close>, \<open>GetLevel\<close>,
  \<open>Shutdown\<close>, \<open>Log\<close> (with the body of \<open>Log\<close> compiled in both builds or in neither),
  \<open>Init\<close> with the empty path, and \<open>Init\<close> with a path that opens while no sink is open,
  called with the same arguments, return the same value and lead to states that agree
  again: the same console output, the same file output, the same threshold and sink.
  When the path does not open (no sink being open), the resulting states still
  correspond and the environments are the same but for standard error, where the two
  warnings differ. Outside the comparison: the calls on the mutex, the flag
  \<open>mutexInitialized\<close> that only the C variant has, the error state that only the C++
  stream has, and \<open>Init\<close> while a sink is open.
\<close>

theorem C3_variants_agree:
  "agree (c_initial, w) (cpp_initial, w)
   \<and> (agree x y \<longrightarrow>
        currentLevel (fst x) = cpp_currentLevel (fst y)
        \<and> logFile (fst x) = of_handle (cpp_logFile (fst y))
        \<and> out_chars (snd x) = out_chars (snd y) \<and> err_chars (snd x) = err_chars (snd y)
        \<and> disk (snd x) = disk (snd y) \<and> streams (snd x) = streams (snd y)
        \<and> agree (RELogger_SetLevel l x) (SetLevel l y)
        \<and> fst (RELogger_GetLevel x) = fst (GetLevel y)
        \<and> agree (snd (RELogger_GetLevel x)) (snd (GetLevel y))
        \<and> agree (RELogger_Log (\<not> NDEBUG) level message file line func x)
                 (Log NDEBUG level message file line func y)
        \<and> agree (RELogger_Shutdown x) (Shutdown y)
        \<and> agree (RELogger_Init (Some []) x) (Init [] y)
        \<and> (path \<noteq> [] \<and> logFile (fst x) = None \<and> writable (snd x) path \<longrightarrow>
             agree (RELogger_Init (Some path) x) (Init path y))
        \<and> (path \<noteq> [] \<and> logFile (fst x) = None \<and> \<not> writable (snd x) path \<longrightarrow>
             corresponds (fst (RELogger_Init (Some path) x)) (fst (Init path y))
             \<and> (io_of (snd (RELogger_Init (Some path) x)))\<lparr>err_chars := []\<rparr>
                 = (io_of (snd (Init path y)))\<lparr>err_chars := []\<rparr>))"
  using agree_initial [of w] agreeD [of x y] agree_SetLevel [of x y l] agree_GetLevel [of x y]
    agree_Log [of x y NDEBUG level message "file" line func] agree_Shutdown [of x y]
    agree_Init_no_path [of x y] agree_Init_opened [of x y path]
    agree_Init_failed [of x y path]
  by blast

theorem C3_variants_agree_witness:
  "agree (c_initial, w0) (cpp_initial, w0)
   \<and> writable w0 ''app.log''
   \<and> agree (RELogger_Init (Some ''app.log'') (c_initial, w0)) (Init ''app.log'' (cpp_initial, w0))
   \<and> disk (snd (RELogger_Log True LogLevel_Error ''disk full'' ''x.c'' 42 ''save''
               (RELogger_Init (Some ''app.log'') (c_initial, w0))))
     = disk (snd (Log False LogLevel_Error ''disk full'' ''x.c'' 42 ''save''
               (Init ''app.log'' (cpp_initial, w0))))
   \<and> err_chars (snd (RELogger_Log True LogLevel_Error ''disk full'' ''x.c'' 42 ''save''
               (RELogger_Init (Some ''app.log'') (c_initial, w0))))
     = err_chars (snd (Log False LogLevel_Error ''disk full'' ''x.c'' 42 ''save''
               (Init ''app.log'' (cpp_initial, w0))))"
proof -
  have wr: "writable w0 ''app.log''" by (simp add: w0_def)
  have a0: "agree (c_initial, w0) (cpp_initial, w0)"
    using C3_variants_agree [of w0 "(c_initial, w0)" "(cpp_initial, w0)"] by simp
  have a1: "agree (RELogger_Init (Some ''app.log'') (c_initial, w0)) (Init ''app.log'' (cpp_initial, w0))"
    using C3_variants_agree [of w0 "(c_initial, w0)" "(cpp_initial, w0)" _ _ _ _ _ _ _ "''app.log''"]
      a0 wr
    by (simp add: c_initial_def)
  have a2: "agree (RELogger_Log True LogLevel_Error ''disk full'' ''x.c'' 42 ''save''
               (RELogger_Init (Some ''app.log'') (c_initial, w0)))
             (Log False LogLevel_Error ''disk full'' ''x.c'' 42 ''save''
               (Init ''app.log'' (cpp_initial, w0)))"
    using C3_variants_agree [of w0 "RELogger_Init (Some ''app.log'') (c_initial, w0)"
        "Init ''app.log'' (cpp_initial, w0)" _ False LogLevel_Error "''disk full''" "''x.c''" 42
        "''save''"] a1
    by simp
  have a3: "disk (snd (RELogger_Log True LogLevel_Error ''disk full'' ''x.c'' 42 ''save''
               (RELogger_Init (Some ''app.log'') (c_initial, w0))))
     = disk (snd (Log False LogLevel_Error ''disk full'' ''x.c'' 42 ''save''
               (Init ''app.log'' (cpp_initial, w0))))
   \<and> err_chars (snd (RELogger_Log True LogLevel_Error ''disk full'' ''x.c'' 42 ''save''
               (RELogger_Init (Some ''app.log'') (c_initial, w0))))
     = err_chars (snd (Log False LogLevel_Error ''disk full'' ''x.c'' 42 ''save''
               (Init ''app.log'' (cpp_initial, w0))))"
    using C3_variants_agree [of w0 "RELogger_Log True LogLevel_Error ''disk full'' ''x.c'' 42 ''save''
               (RELogger_Init (Some ''app.log'') (c_initial, w0))"
             "Log False LogLevel_Error ''disk full'' ''x.c'' 42 ''save''
               (Init ''app.log'' (cpp_initial, w0))"] a2
    by blast
  from wr a0 a1 a3 show ?thesis by blast
qed

subsection \<open>C4: which console stream\<close>

text \<open>
  C4. A \<open>Log\<close> call that passes the filter (in a build that compiles the body of \<open>Log\<close>)
  writes its console line to standard error and nothing to standard output when
  \<open>level >= Error\<close>, and to standard output and nothing to standard error otherwise;
  \<open>Error\<close> and \<open>Fatal\<close> are the severities at or above \<open>Error\<close>, and \<open>Trace\<close>, \<open>Debug\<close>,
  \<open>Info\<close> and \<open>Warn\<close> are below it. Both variants.
\<close>

theorem C4_stream_routing:
  "(DEBUG \<and> \<not> level < currentLevel s \<longrightarrow>
      (let w' = snd (RELogger_Log DEBUG level message file line func (s, w));
           text = LevelToColor level
                  @ spec_line (strftime_HMS (clock w)) (LevelToString level) file line func message
                  @ RESET_COLOR @ [NL]
       in if LogLevel_Error \<le> level
          then err_chars w' = err_chars w @ text \<and> out_chars w' = out_chars w
          else out_chars w' = out_chars w @ text \<and> err_chars w' = err_chars w))
   \<and> (\<not> NDEBUG \<and> \<not> level < cpp_currentLevel s' \<longrightarrow>
      (let w' = snd (Log NDEBUG level message file line func (s', w));
           text = cpp_LevelToColor level
                  @ spec_line (strftime_HMS (clock w)) (cpp_LevelToString level) file line func message
                  @ RESET_COLOR @ [NL]
       in if LogLevel_Error \<le> level
          then err_chars w' = err_chars w @ text \<and> out_chars w' = out_chars w
          else out_chars w' = out_chars w @ text \<and> err_chars w' = err_chars w))
   \<and> LogLevel_Error \<le> LogLevel_Error \<and> LogLevel_Error \<le> LogLevel_Fatal
   \<and> LogLevel_Trace < LogLevel_Error \<and> LogLevel_Debug < LogLevel_Error
   \<and> LogLevel_Info < LogLevel_Error \<and> LogLevel_Warn < LogLevel_Error"
proof -
  have c: "DEBUG \<and> \<not> level < currentLevel s \<longrightarrow>
      (let w' = snd (RELogger_Log DEBUG level message file line func (s, w));
           text = LevelToColor level
                  @ spec_line (strftime_HMS (clock w)) (LevelToString level) file line func message
                  @ RESET_COLOR @ [NL]
       in if LogLevel_Error \<le> level
          then err_chars w' = err_chars w @ text \<and> out_chars w' = out_chars w
          else out_chars w' = out_chars w @ text \<and> err_chars w' = err_chars w)"
    by (simp add: c_Log_console Let_def)
  have p: "\<not> NDEBUG \<and> \<not> level < cpp_currentLevel s' \<longrightarrow>
      (let w' = snd (Log NDEBUG level message file line func (s', w));
           text = cpp_LevelToColor level
                  @ spec_line (strftime_HMS (clock w)) (cpp_LevelToString level) file line func message
                  @ RESET_COLOR @ [NL]
       in if LogLevel_Error \<le> level
          then err_chars w' = err_chars w @ text \<and> out_chars w' = out_chars w
          else out_chars w' = out_chars w @ text \<and> err_chars w' = err_chars w)"
    by (simp add: cpp_Log_console Let_def)
  have n: "LogLevel_Error \<le> LogLevel_Error \<and> LogLevel_Error \<le> LogLevel_Fatal
   \<and> LogLevel_Trace < LogLevel_Error \<and> LogLevel_Debug < LogLevel_Error
   \<and> LogLevel_Info < LogLevel_Error \<and> LogLevel_Warn < LogLevel_Error"
    by (simp add: LogLevel_defs)
  from c p n show ?thesis by blast
qed

theorem C4_stream_routing_witness:
  "err_chars (snd (RELogger_Log True LogLevel_Fatal ''out of memory'' ''x.c'' 42 ''save'' (c_initial, w0)))
     = ESC # ''[41m[09:05:03] FATAL x.c:42 (save) - out of memory'' @ ESC # ''[0m'' @ [NL]
   \<and> out_chars (snd (RELogger_Log True LogLevel_Fatal ''out of memory'' ''x.c'' 42 ''save'' (c_initial, w0))) = []
   \<and> out_chars (snd (Log False LogLevel_Warn ''low disk'' ''x.c'' 42 ''save'' (cpp_initial, w0)))
     = ESC # ''[33m[09:05:03] WARN x.c:42 (save) - low disk'' @ ESC # ''[0m'' @ [NL]
   \<and> err_chars (snd (Log False LogLevel_Warn ''low disk'' ''x.c'' 42 ''save'' (cpp_initial, w0))) = []"
proof -
  have e: "out_chars w0 = []" "err_chars w0 = []"
    by (simp_all add: w0_def)
  show ?thesis
    using C4_stream_routing [of True LogLevel_Fatal c_initial "''out of memory''" "''x.c''" 42 "''save''" w0
        True]
      C4_stream_routing [of False LogLevel_Warn _ "''low disk''" "''x.c''" 42 "''save''" w0
        False cpp_initial]
    by (simp add: Let_def e strftime_w0 dec_int_42 spec_line_def c_initial_def cpp_initial_def
        LogLevel_defs LevelToColor_def LevelToString_def cpp_LevelToColor_def cpp_LevelToString_def
        RESET_COLOR_def)
qed

subsection \<open>C5: the console line and the colour table\<close>

text \<open>
  C5. A \<open>Log\<close> call that passes the filter (in a build that compiles the body of \<open>Log\<close>)
  appends to its console stream the colour of the level, the record in the spec's format
  (\<open>spec_line\<close>), the reset code and a newline; the line it appends to an open file
  sink is that same record and a newline. The colours are the ANSI sequences \<open>ESC [ n m\<close> with \<open>n\<close> = 37
  (white) for Trace, 36 (cyan) for Debug, 32 (green) for Info, 33 (yellow) for Warn,
  31 (red foreground) for Error and 41 (red background) for Fatal; a value outside
  the six severities gets the reset code \<open>ESC [ 0 m\<close>. Both variants.
\<close>

theorem C5_console_line:
  "(DEBUG \<and> \<not> level < currentLevel s \<longrightarrow>
      (let w' = snd (RELogger_Log DEBUG level message file line func (s, w));
           plain = spec_line (strftime_HMS (clock w)) (LevelToString level) file line func message
       in (if LogLevel_Error \<le> level then err_chars w' else out_chars w') =
            (if LogLevel_Error \<le> level then err_chars w else out_chars w)
            @ LevelToColor level @ plain @ RESET_COLOR @ [NL]
          \<and> (logFile s = Some h \<and> streams w h = Some st \<longrightarrow>
               file_content w' (f_path st) = file_content w (f_path st) @ f_buffer st @ plain @ [NL])))
   \<and> (\<not> NDEBUG \<and> \<not> level < cpp_currentLevel s' \<longrightarrow>
      (let w' = snd (Log NDEBUG level message file line func (s', w));
           plain = spec_line (strftime_HMS (clock w)) (cpp_LevelToString level) file line func message
       in (if LogLevel_Error \<le> level then err_chars w' else out_chars w') =
            (if LogLevel_Error \<le> level then err_chars w else out_chars w)
            @ cpp_LevelToColor level @ plain @ RESET_COLOR @ [NL]
          \<and> (of_handle (cpp_logFile s') = Some h \<and> \<not> of_fail (cpp_logFile s')
               \<and> streams w h = Some st \<longrightarrow>
               file_content w' (f_path st) = file_content w (f_path st) @ f_buffer st @ plain @ [NL])))
   \<and> LevelToColor LogLevel_Trace = ESC # ''[37m''
   \<and> LevelToColor LogLevel_Debug = ESC # ''[36m''
   \<and> LevelToColor LogLevel_Info = ESC # ''[32m''
   \<and> LevelToColor LogLevel_Warn = ESC # ''[33m''
   \<and> LevelToColor LogLevel_Error = ESC # ''[31m''
   \<and> LevelToColor LogLevel_Fatal = ESC # ''[41m''
   \<and> (level < LogLevel_Trace \<or> LogLevel_Fatal < level \<longrightarrow> LevelToColor level = ESC # ''[0m'')
   \<and> cpp_LevelToColor = LevelToColor
   \<and> RESET_COLOR = ESC # ''[0m''"
proof -
  have c: "DEBUG \<and> \<not> level < currentLevel s \<longrightarrow>
      (let w' = snd (RELogger_Log DEBUG level message file line func (s, w));
           plain = spec_line (strftime_HMS (clock w)) (LevelToString level) file line func message
       in (if LogLevel_Error \<le> level then err_chars w' else out_chars w') =
            (if LogLevel_Error \<le> level then err_chars w else out_chars w)
            @ LevelToColor level @ plain @ RESET_COLOR @ [NL]
          \<and> (logFile s = Some h \<and> streams w h = Some st \<longrightarrow>
               file_content w' (f_path st) = file_content w (f_path st) @ f_buffer st @ plain @ [NL]))"
    by (simp add: c_Log_console c_Log_sink Let_def)
  have p: "\<not> NDEBUG \<and> \<not> level < cpp_currentLevel s' \<longrightarrow>
      (let w' = snd (Log NDEBUG level message file line func (s', w));
           plain = spec_line (strftime_HMS (clock w)) (cpp_LevelToString level) file line func message
       in (if LogLevel_Error \<le> level then err_chars w' else out_chars w') =
            (if LogLevel_Error \<le> level then err_chars w else out_chars w)
            @ cpp_LevelToColor level @ plain @ RESET_COLOR @ [NL]
          \<and> (of_handle (cpp_logFile s') = Some h \<and> \<not> of_fail (cpp_logFile s')
               \<and> streams w h = Some st \<longrightarrow>
               file_content w' (f_path st) = file_content w (f_path st) @ f_buffer st @ plain @ [NL]))"
    by (simp add: cpp_Log_console cpp_Log_sink Let_def)
  have t: "LevelToColor LogLevel_Trace = ESC # ''[37m''"
    "LevelToColor LogLevel_Debug = ESC # ''[36m''"
    "LevelToColor LogLevel_Info = ESC # ''[32m''"
    "LevelToColor LogLevel_Warn = ESC # ''[33m''"
    "LevelToColor LogLevel_Error = ESC # ''[31m''"
    "LevelToColor LogLevel_Fatal = ESC # ''[41m''"
    by (simp_all add: LevelToColor_def LogLevel_defs)
  have u: "level < LogLevel_Trace \<or> LogLevel_Fatal < level \<longrightarrow> LevelToColor level = ESC # ''[0m''"
    by (auto simp: LevelToColor_def LogLevel_defs)
  have r: "cpp_LevelToColor = LevelToColor" "RESET_COLOR = ESC # ''[0m''"
    by (simp_all add: cpp_Level_tables RESET_COLOR_def)
  from c p t u r show ?thesis by blast
qed

theorem C5_console_line_witness:
  "err_chars (snd (RELogger_Log True LogLevel_Error ''disk full'' ''x.c'' 42 ''save''
                     (RELogger_Init (Some ''app.log'') (c_initial, w0))))
     = ESC # ''[31m'' @ ''[09:05:03] ERROR x.c:42 (save) - disk full'' @ ESC # ''[0m'' @ [NL]
   \<and> file_content (snd (RELogger_Log True LogLevel_Error ''disk full'' ''x.c'' 42 ''save''
                     (RELogger_Init (Some ''app.log'') (c_initial, w0)))) ''app.log''
     = ''[09:05:03] ERROR x.c:42 (save) - disk full'' @ [NL]
   \<and> out_chars (snd (Log False LogLevel_Info ''started'' ''x.c'' 42 ''save''
                     (Init ''app.log'' (cpp_initial, w0))))
     = ESC # ''[32m'' @ ''[09:05:03] INFO x.c:42 (save) - started'' @ ESC # ''[0m'' @ [NL]
   \<and> file_content (snd (Log False LogLevel_Info ''started'' ''x.c'' 42 ''save''
                     (Init ''app.log'' (cpp_initial, w0)))) ''app.log''
     = ''[09:05:03] INFO x.c:42 (save) - started'' @ [NL]
   \<and> out_chars (snd (Log False 7 ''disk full'' ''x.c'' 42 ''save'' (cpp_initial, w0))) = []
   \<and> err_chars (snd (Log False 7 ''disk full'' ''x.c'' 42 ''save'' (cpp_initial, w0)))
     = ESC # ''[0m'' @ ''[09:05:03] UNKNOWN x.c:42 (save) - disk full'' @ ESC # ''[0m'' @ [NL]
   \<and> LevelToColor 7 = ESC # ''[0m''"
proof -
  have o: "out_chars (snd (Log False 7 ''disk full'' ''x.c'' 42 ''save'' (cpp_initial, w0))) = []"
    by (simp add: cpp_Log_console sample_empty cpp_initial_def LogLevel_defs)
  show ?thesis
    unfolding c_sample_Init cpp_sample_Init
    using C5_console_line [of True LogLevel_Error
        "\<lparr>logFile = Some 0, currentLevel = LogLevel_Trace, mutexInitialized = True\<rparr>"
        "''disk full''" "''x.c''" 42 "''save''" "snd (fopen_w ''app.log'' w0)"
        0 "\<lparr>f_path = ''app.log'', f_buffer = []\<rparr>" True cpp_initial]
      C5_console_line [of False LogLevel_Info c_initial "''started''" "''x.c''" 42 "''save''"
        "mutex_call MUnlock (snd (fopen_w ''app.log'' (mutex_call MLock w0)))"
        0 "\<lparr>f_path = ''app.log'', f_buffer = []\<rparr>" False
        "\<lparr>cpp_logFile = \<lparr>of_handle = Some 0, of_fail = False\<rparr>, cpp_currentLevel = LogLevel_Trace\<rparr>"]
      C5_console_line [of False 7 c_initial "''disk full''" "''x.c''" 42 "''save''" w0
        0 "\<lparr>f_path = [], f_buffer = []\<rparr>" False cpp_initial]
      o
    by (simp add: Let_def sample_empty sample_opened strftime_w0 dec_int_42 spec_line_def
        c_initial_def cpp_initial_def LogLevel_defs LevelToString_def cpp_LevelToString_def)
qed

subsection \<open>C6: \<open>Shutdown\<close> twice, and \<open>Shutdown\<close> with no sink\<close>

text \<open>
  C6, as stated, makes \<open>Shutdown\<close> with no open sink a no-op on the logger's state. In
  the C variant \<open>Init\<close> sets \<open>mutexInitialized\<close>, also when it opens no file, and
  \<open>Shutdown\<close> then destroys the mutex and clears the flag: after \<open>RELogger_Init(NULL)\<close>
  no sink is open, and \<open>RELogger_Shutdown\<close> changes the state.
\<close>

theorem C6_counterexample:
  "fst (RELogger_Init None (c_initial, w0))
     = \<lparr>logFile = None, currentLevel = LogLevel_Trace, mutexInitialized = True\<rparr>
   \<and> fst (RELogger_Shutdown (RELogger_Init None (c_initial, w0)))
     = \<lparr>logFile = None, currentLevel = LogLevel_Trace, mutexInitialized = False\<rparr>
   \<and> fst (RELogger_Shutdown (RELogger_Init None (c_initial, w0)))
     \<noteq> fst (RELogger_Init None (c_initial, w0))
   \<and> mutex_log (snd (RELogger_Init None (c_initial, w0))) = []
   \<and> mutex_log (snd (RELogger_Shutdown (RELogger_Init None (c_initial, w0)))) = [MDestroy]"
  by (simp add: c_Init_no_path c_Shutdown_closed c_initial_def) (simp add: w0_def)

text \<open>
  C6, amended. A second \<open>Shutdown\<close> right after a first is a no-op: in the C variant
  the logger and the environment are what the first call left; in the C++ variant the
  logger is what the first call left and the environment differs only by a lock and an
  unlock of the mutex. \<open>Shutdown\<close> with no open sink writes nothing and keeps threshold
  and sink; in the C++ variant it keeps the whole state; in the C variant it clears
  \<open>mutexInitialized\<close> and, when the flag was set, destroys the mutex, so that it is a
  no-op exactly when the flag was clear. After any \<open>Shutdown\<close> the sink is absent.
\<close>

theorem C6_shutdown_idempotent:
  "RELogger_Shutdown (RELogger_Shutdown (s, w)) = RELogger_Shutdown (s, w)
   \<and> Shutdown (Shutdown (s', w))
       = (fst (Shutdown (s', w)), mutex_call MUnlock (mutex_call MLock (snd (Shutdown (s', w)))))
   \<and> (logFile s = None \<longrightarrow>
        RELogger_Shutdown (s, w)
          = (s\<lparr>mutexInitialized := False\<rparr>, if mutexInitialized s then mutex_call MDestroy w else w))
   \<and> (logFile s = None \<and> \<not> mutexInitialized s \<longrightarrow> RELogger_Shutdown (s, w) = (s, w))
   \<and> (of_handle (cpp_logFile s') = None \<longrightarrow>
        Shutdown (s', w) = (s', mutex_call MUnlock (mutex_call MLock w)))
   \<and> logFile (fst (RELogger_Shutdown (s, w))) = None
   \<and> of_handle (cpp_logFile (fst (Shutdown (s', w)))) = None"
proof -
  have c_absent: "logFile (fst (RELogger_Shutdown (s, w))) = None"
    and c_flag: "\<not> mutexInitialized (fst (RELogger_Shutdown (s, w)))" for s w
    by (cases "logFile s"; simp add: c_Shutdown_closed c_Shutdown_open)+
  have p_absent: "of_handle (cpp_logFile (fst (Shutdown (s', w)))) = None" for s' w
    by (cases "of_handle (cpp_logFile s')") (simp_all add: cpp_Shutdown_closed cpp_Shutdown_open)
  have c_twice: "RELogger_Shutdown (RELogger_Shutdown (s, w)) = RELogger_Shutdown (s, w)"
    using c_Shutdown_closed [OF c_absent, of s w "snd (RELogger_Shutdown (s, w))"] c_flag [of s w]
    by simp
  have p_twice: "Shutdown (Shutdown (s', w))
       = (fst (Shutdown (s', w)), mutex_call MUnlock (mutex_call MLock (snd (Shutdown (s', w)))))"
    using cpp_Shutdown_closed [OF p_absent, of s' w "snd (Shutdown (s', w))"]
    by simp
  have c_none: "logFile s = None \<longrightarrow>
        RELogger_Shutdown (s, w)
          = (s\<lparr>mutexInitialized := False\<rparr>, if mutexInitialized s then mutex_call MDestroy w else w)"
    by (simp add: c_Shutdown_closed)
  have c_noop: "logFile s = None \<and> \<not> mutexInitialized s \<longrightarrow> RELogger_Shutdown (s, w) = (s, w)"
    by (simp add: c_Shutdown_closed)
  have p_none: "of_handle (cpp_logFile s') = None \<longrightarrow>
        Shutdown (s', w) = (s', mutex_call MUnlock (mutex_call MLock w))"
    by (simp add: cpp_Shutdown_closed)
  from c_twice p_twice c_none c_noop p_none c_absent p_absent show ?thesis
    by blast
qed

theorem C6_shutdown_idempotent_witness:
  "fst (RELogger_Shutdown (RELogger_Init (Some ''app.log'') (c_initial, w0)))
     = \<lparr>logFile = None, currentLevel = LogLevel_Trace, mutexInitialized = False\<rparr>
   \<and> RELogger_Shutdown (RELogger_Shutdown (RELogger_Init (Some ''app.log'') (c_initial, w0)))
     = RELogger_Shutdown (RELogger_Init (Some ''app.log'') (c_initial, w0))
   \<and> RELogger_Shutdown (c_initial, w0) = (c_initial, w0)
   \<and> Shutdown (cpp_initial, w0) = (cpp_initial, mutex_call MUnlock (mutex_call MLock w0))
   \<and> of_handle (cpp_logFile (fst (Shutdown (Init ''app.log'' (cpp_initial, w0))))) = None"
proof -
  have f: "fst (RELogger_Shutdown (RELogger_Init (Some ''app.log'') (c_initial, w0)))
     = \<lparr>logFile = None, currentLevel = LogLevel_Trace, mutexInitialized = False\<rparr>"
    by (simp add: c_sample_Init c_Shutdown_open)
  show ?thesis
    using f C6_shutdown_idempotent [of "fst (RELogger_Init (Some ''app.log'') (c_initial, w0))"
        "snd (RELogger_Init (Some ''app.log'') (c_initial, w0))"
        "fst (Init ''app.log'' (cpp_initial, w0))" ]
      C6_shutdown_idempotent [of c_initial w0 cpp_initial]
      C6_shutdown_idempotent [of c_initial "snd (Init ''app.log'' (cpp_initial, w0))"
         "fst (Init ''app.log'' (cpp_initial, w0))"]
    by (simp add: c_initial_def cpp_initial_def)
qed

subsection \<open>C7: \<open>Init\<close> with a path that cannot be opened\<close>

text \<open>
  C7. \<open>Init\<close> is called with a non-empty path that cannot be opened for writing (in the
  C++ variant while no sink is open: \<open>Init\<close> on an open sink is outside the contract).
  It returns; the sink is absent and the threshold is kept; its only output is one
  warning line on standard error that names the path; no file is touched. After any
  further calls of \<open>SetLevel\<close>, \<open>GetLevel\<close> and \<open>Log\<close> the sink is still absent and the
  disk is as it was, and a \<open>Log\<close> call at or above the threshold then in force (in a build
  that compiles the body of \<open>Log\<close>) appends its console line to its stream and leaves the
  disk as it was. Both variants.
\<close>

theorem C7_degradation:
  "(p \<noteq> [] \<and> \<not> writable w p \<longrightarrow>
      (let x1 = RELogger_Init (Some p) (s, w);
           x2 = c_uses DEBUG us x1;
           w3 = snd (RELogger_Log DEBUG level message file line func x2)
       in logFile (fst x1) = None
          \<and> currentLevel (fst x1) = currentLevel s
          \<and> err_chars (snd x1) =
              err_chars w @ ''Warning: Could not open log file '' @ [QUOTE] @ p @ [QUOTE]
              @ '' (error: '' @ open_error w p @ '')'' @ [NL]
          \<and> out_chars (snd x1) = out_chars w
          \<and> disk (snd x1) = disk w \<and> streams (snd x1) = streams w
          \<and> logFile (fst x2) = None \<and> disk w3 = disk w
          \<and> (DEBUG \<and> \<not> level < currentLevel (fst x2) \<longrightarrow>
               (if LogLevel_Error \<le> level then err_chars w3 else out_chars w3) =
                 (if LogLevel_Error \<le> level then err_chars (snd x2) else out_chars (snd x2))
                 @ LevelToColor level
                 @ spec_line (strftime_HMS (clock (snd x2))) (LevelToString level)
                     file line func message
                 @ RESET_COLOR @ [NL])))
   \<and> (p \<noteq> [] \<and> \<not> writable w p \<and> of_handle (cpp_logFile s') = None \<longrightarrow>
      (let x1 = Init p (s', w);
           x2 = cpp_uses NDEBUG us x1;
           w3 = snd (Log NDEBUG level message file line func x2)
       in of_handle (cpp_logFile (fst x1)) = None
          \<and> cpp_currentLevel (fst x1) = cpp_currentLevel s'
          \<and> err_chars (snd x1) =
              err_chars w @ ESC # ''[31m[LOGGER ERROR] Failed to open log file: '' @ p
              @ ESC # ''[0m'' @ [NL]
          \<and> out_chars (snd x1) = out_chars w
          \<and> disk (snd x1) = disk w \<and> streams (snd x1) = streams w
          \<and> of_handle (cpp_logFile (fst x2)) = None \<and> disk w3 = disk w
          \<and> (\<not> NDEBUG \<and> \<not> level < cpp_currentLevel (fst x2) \<longrightarrow>
               (if LogLevel_Error \<le> level then err_chars w3 else out_chars w3) =
                 (if LogLevel_Error \<le> level then err_chars (snd x2) else out_chars (snd x2))
                 @ cpp_LevelToColor level
                 @ spec_line (strftime_HMS (clock (snd x2))) (cpp_LevelToString level)
                     file line func message
                 @ RESET_COLOR @ [NL])))"
proof -
  have c: "logFile (fst x1) = None
          \<and> currentLevel (fst x1) = currentLevel s
          \<and> err_chars (snd x1) =
              err_chars w @ ''Warning: Could not open log file '' @ [QUOTE] @ p @ [QUOTE]
              @ '' (error: '' @ open_error w p @ '')'' @ [NL]
          \<and> out_chars (snd x1) = out_chars w
          \<and> disk (snd x1) = disk w \<and> streams (snd x1) = streams w
          \<and> logFile (fst x2) = None \<and> disk w3 = disk w
          \<and> (DEBUG \<and> \<not> level < currentLevel (fst x2) \<longrightarrow>
               (if LogLevel_Error \<le> level then err_chars w3 else out_chars w3) =
                 (if LogLevel_Error \<le> level then err_chars (snd x2) else out_chars (snd x2))
                 @ LevelToColor level
                 @ spec_line (strftime_HMS (clock (snd x2))) (LevelToString level)
                     file line func message
                 @ RESET_COLOR @ [NL])"
    if h: "p \<noteq> []" "\<not> writable w p"
      and x1: "x1 = RELogger_Init (Some p) (s, w)"
      and x2: "x2 = c_uses DEBUG us x1"
      and w3: "w3 = snd (RELogger_Log DEBUG level message file line func x2)"
    for x1 x2 w3
  proof -
    have i: "x1 = (s\<lparr>mutexInitialized := True, logFile := None\<rparr>,
                   write_stderr (''Warning: Could not open log file '' @ [QUOTE] @ p @ [QUOTE]
                                 @ '' (error: '' @ open_error w p @ '')'' @ [NL]) w)"
      unfolding x1 by (rule c_Init_failed [OF h])
    then have n1: "logFile (fst x1) = None" by simp
    obtain s2 w2 where p2: "x2 = (s2, w2)" by (cases x2)
    have "logFile (fst x2) = None \<and> disk (snd x2) = disk (snd x1)
          \<and> streams (snd x2) = streams (snd x1)"
      unfolding x2 by (rule c_uses_no_sink [OF n1])
    moreover have "disk (snd x1) = disk w"
      by (simp add: i)
    ultimately have n2: "logFile s2 = None" and d2: "disk w2 = disk w"
      by (simp_all add: p2)
    have d3: "disk w3 = disk w"
      unfolding w3 p2 by (simp add: c_Log_file_none [OF n2] d2)
    show ?thesis
      using n2 d3 by (simp add: i p2 w3 c_Log_console)
  qed
  have q: "of_handle (cpp_logFile (fst x1)) = None
          \<and> cpp_currentLevel (fst x1) = cpp_currentLevel s'
          \<and> err_chars (snd x1) =
              err_chars w @ ESC # ''[31m[LOGGER ERROR] Failed to open log file: '' @ p
              @ ESC # ''[0m'' @ [NL]
          \<and> out_chars (snd x1) = out_chars w
          \<and> disk (snd x1) = disk w \<and> streams (snd x1) = streams w
          \<and> of_handle (cpp_logFile (fst x2)) = None \<and> disk w3 = disk w
          \<and> (\<not> NDEBUG \<and> \<not> level < cpp_currentLevel (fst x2) \<longrightarrow>
               (if LogLevel_Error \<le> level then err_chars w3 else out_chars w3) =
                 (if LogLevel_Error \<le> level then err_chars (snd x2) else out_chars (snd x2))
                 @ cpp_LevelToColor level
                 @ spec_line (strftime_HMS (clock (snd x2))) (cpp_LevelToString level)
                     file line func message
                 @ RESET_COLOR @ [NL])"
    if h: "p \<noteq> []" "\<not> writable w p" and closed: "of_handle (cpp_logFile s') = None"
      and x1: "x1 = Init p (s', w)"
      and x2: "x2 = cpp_uses NDEBUG us x1"
      and w3: "w3 = snd (Log NDEBUG level message file line func x2)"
    for x1 x2 w3
  proof -
    from h have f: "of_handle (cpp_logFile s') \<noteq> None \<or> \<not> writable w p" by simp
    have i: "x1 = (s'\<lparr>cpp_logFile := (cpp_logFile s')\<lparr>of_fail := True\<rparr>\<rparr>,
                   mutex_call MUnlock
                     (write_stderr (ESC # ''[31m[LOGGER ERROR] Failed to open log file: '' @ p
                                    @ ESC # ''[0m'' @ [NL])
                        (mutex_call MLock w)))"
      unfolding x1 by (rule cpp_Init_failed [OF h(1) f])
    with closed have n1: "of_handle (cpp_logFile (fst x1)) = None" by simp
    obtain s2 w2 where p2: "x2 = (s2, w2)" by (cases x2)
    have "of_handle (cpp_logFile (fst x2)) = None \<and> disk (snd x2) = disk (snd x1)
          \<and> streams (snd x2) = streams (snd x1)"
      unfolding x2 by (rule cpp_uses_no_sink [OF n1])
    moreover have "disk (snd x1) = disk w"
      by (simp add: i)
    ultimately have n2: "of_handle (cpp_logFile s2) = None" and d2: "disk w2 = disk w"
      by (simp_all add: p2)
    have d3: "disk w3 = disk w"
      unfolding w3 p2 by (simp add: cpp_Log_file_closed [OF n2] d2)
    show ?thesis
      using n2 d3 closed by (simp add: i p2 w3 cpp_Log_console)
  qed
  from c q show ?thesis
    by (simp only: Let_def) blast
qed

theorem C7_degradation_witness:
  "\<not> writable w0 ''/root/app.log''
   \<and> logFile (fst (RELogger_Init (Some ''/root/app.log'') (c_initial, w0))) = None
   \<and> err_chars (snd (RELogger_Init (Some ''/root/app.log'') (c_initial, w0)))
      = ''Warning: Could not open log file '' @ [QUOTE] @ ''/root/app.log'' @ [QUOTE]
        @ '' (error: Permission denied)'' @ [NL]
   \<and> out_chars (snd (RELogger_Log True LogLevel_Warn ''low disk'' ''x.c'' 42 ''save''
         (c_uses True [Use_SetLevel LogLevel_Warn]
            (RELogger_Init (Some ''/root/app.log'') (c_initial, w0)))))
      = ESC # ''[33m[09:05:03] WARN x.c:42 (save) - low disk'' @ ESC # ''[0m'' @ [NL]
   \<and> of_handle (cpp_logFile (fst (Init ''/root/app.log'' (cpp_initial, w0)))) = None
   \<and> err_chars (snd (Init ''/root/app.log'' (cpp_initial, w0)))
      = ESC # ''[31m[LOGGER ERROR] Failed to open log file: /root/app.log'' @ ESC # ''[0m'' @ [NL]
   \<and> out_chars (snd (Log False LogLevel_Warn ''low disk'' ''x.c'' 42 ''save''
         (cpp_uses False [Use_SetLevel LogLevel_Warn]
            (Init ''/root/app.log'' (cpp_initial, w0)))))
      = ESC # ''[33m[09:05:03] WARN x.c:42 (save) - low disk'' @ ESC # ''[0m'' @ [NL]"
proof -
  have nw: "\<not> writable w0 ''/root/app.log''"
    "open_error w0 ''/root/app.log'' = ''Permission denied''"
    by (simp_all add: w0_def)
  have ci: "RELogger_Init (Some ''/root/app.log'') (c_initial, w0) =
     (c_initial\<lparr>mutexInitialized := True, logFile := None\<rparr>,
      write_stderr (''Warning: Could not open log file '' @ [QUOTE] @ ''/root/app.log'' @ [QUOTE]
                    @ '' (error: '' @ ''Permission denied'' @ '')'' @ [NL]) w0)"
    using c_Init_failed [OF _ nw(1), of c_initial] by (simp add: nw(2))
  have pi: "Init ''/root/app.log'' (cpp_initial, w0) =
     (cpp_initial\<lparr>cpp_logFile := (cpp_logFile cpp_initial)\<lparr>of_fail := True\<rparr>\<rparr>,
      mutex_call MUnlock
        (write_stderr (ESC # ''[31m[LOGGER ERROR] Failed to open log file: '' @ ''/root/app.log''
                       @ ESC # ''[0m'' @ [NL])
           (mutex_call MLock w0)))"
    using cpp_Init_failed [of "''/root/app.log''" cpp_initial w0] nw(1) by simp
  show ?thesis
    using nw(1) C7_degradation [of "''/root/app.log''" w0 c_initial True "[Use_SetLevel LogLevel_Warn]"
        LogLevel_Warn "''low disk''" "''x.c''" 42 "''save''" cpp_initial False]
    unfolding ci pi
    by (simp add: Let_def nw(2) sample_empty c_uses_def cpp_uses_def c_SetLevel cpp_SetLevel
        strftime_w0 dec_int_42 spec_line_def LogLevel_defs
        LevelToColor_def LevelToString_def cpp_LevelToColor_def cpp_LevelToString_def
        RESET_COLOR_def c_initial_def cpp_initial_def)
qed

subsection \<open>C8: every record is flushed\<close>

text \<open>
  C8. After a \<open>Log\<close> call that passes the filter (in a build that compiles the body of
  \<open>Log\<close>) while the file sink is open (in the C++ variant: open, with no error state on
  the stream), the sink's buffer is empty and the file on disk ends with what the
  buffer held before followed by the record of this call: the write is followed by a
  flush inside the call. Both variants.
\<close>

theorem C8_flush_on_write:
  "(DEBUG \<and> \<not> level < currentLevel s \<and> logFile s = Some h \<and> streams w h = Some st \<longrightarrow>
      (let w' = snd (RELogger_Log DEBUG level message file line func (s, w))
       in streams w' h = Some (st\<lparr>f_buffer := []\<rparr>)
          \<and> file_content w' (f_path st) =
              file_content w (f_path st) @ f_buffer st
              @ spec_line (strftime_HMS (clock w)) (LevelToString level) file line func message
              @ [NL]))
   \<and> (\<not> NDEBUG \<and> \<not> level < cpp_currentLevel s' \<and> of_handle (cpp_logFile s') = Some h
       \<and> \<not> of_fail (cpp_logFile s') \<and> streams w h = Some st \<longrightarrow>
      (let w' = snd (Log NDEBUG level message file line func (s', w))
       in streams w' h = Some (st\<lparr>f_buffer := []\<rparr>)
          \<and> file_content w' (f_path st) =
              file_content w (f_path st) @ f_buffer st
              @ spec_line (strftime_HMS (clock w)) (cpp_LevelToString level) file line func message
              @ [NL]))"
  by (simp add: c_Log_sink cpp_Log_sink Let_def)

theorem C8_flush_on_write_witness:
  "streams (snd (RELogger_Log True LogLevel_Info ''started'' ''main.c'' 42 ''main''
                   (RELogger_Init (Some ''app.log'') (c_initial, w0)))) 0
     = Some \<lparr>f_path = ''app.log'', f_buffer = []\<rparr>
   \<and> disk (snd (RELogger_Log True LogLevel_Info ''started'' ''main.c'' 42 ''main''
                   (RELogger_Init (Some ''app.log'') (c_initial, w0)))) ''app.log''
     = Some (''[09:05:03] INFO main.c:42 (main) - started'' @ [NL])
   \<and> streams (snd (Log False LogLevel_Info ''started'' ''main.c'' 42 ''main''
                   (Init ''app.log'' (cpp_initial, w0)))) 0
     = Some \<lparr>f_path = ''app.log'', f_buffer = []\<rparr>
   \<and> disk (snd (Log False LogLevel_Info ''started'' ''main.c'' 42 ''main''
                   (Init ''app.log'' (cpp_initial, w0)))) ''app.log''
     = Some (''[09:05:03] INFO main.c:42 (main) - started'' @ [NL])"
proof -
  have d: "disk w ''app.log'' = Some x" if "file_content w ''app.log'' = x" "x \<noteq> []" for w x
    using that by (auto simp: file_content_def split: option.splits)
  have c: "streams (snd (RELogger_Log True LogLevel_Info ''started'' ''main.c'' 42 ''main''
                   (RELogger_Init (Some ''app.log'') (c_initial, w0)))) 0
     = Some \<lparr>f_path = ''app.log'', f_buffer = []\<rparr>
   \<and> file_content (snd (RELogger_Log True LogLevel_Info ''started'' ''main.c'' 42 ''main''
                   (RELogger_Init (Some ''app.log'') (c_initial, w0)))) ''app.log''
     = ''[09:05:03] INFO main.c:42 (main) - started'' @ [NL]"
    unfolding c_sample_Init
    using C8_flush_on_write [of True LogLevel_Info
        "\<lparr>logFile = Some 0, currentLevel = LogLevel_Trace, mutexInitialized = True\<rparr>"
        0 "snd (fopen_w ''app.log'' w0)" "\<lparr>f_path = ''app.log'', f_buffer = []\<rparr>"
        "''started''" "''main.c''" 42 "''main''" True cpp_initial]
    by (simp add: Let_def sample_opened strftime_w0 dec_int_42 LogLevel_defs LevelToString_def
        spec_line_def)
  have p: "streams (snd (Log False LogLevel_Info ''started'' ''main.c'' 42 ''main''
                   (Init ''app.log'' (cpp_initial, w0)))) 0
     = Some \<lparr>f_path = ''app.log'', f_buffer = []\<rparr>
   \<and> file_content (snd (Log False LogLevel_Info ''started'' ''main.c'' 42 ''main''
                   (Init ''app.log'' (cpp_initial, w0)))) ''app.log''
     = ''[09:05:03] INFO main.c:42 (main) - started'' @ [NL]"
    unfolding cpp_sample_Init
    using C8_flush_on_write [of False LogLevel_Info c_initial
        0 "mutex_call MUnlock (snd (fopen_w ''app.log'' (mutex_call MLock w0)))"
        "\<lparr>f_path = ''app.log'', f_buffer = []\<rparr>"
        "''started''" "''main.c''" 42 "''main''" False
        "\<lparr>cpp_logFile = \<lparr>of_handle = Some 0, of_fail = False\<rparr>, cpp_currentLevel = LogLevel_Trace\<rparr>"]
    by (simp add: Let_def sample_opened strftime_w0 dec_int_42 LogLevel_defs cpp_LevelToString_def
        spec_line_def)
  from c p show ?thesis
    by (auto intro!: d)
qed

subsection \<open>C9: who takes the lock\<close>

text \<open>
  C9 asks that \<open>SetLevel\<close> and \<open>GetLevel\<close> hold the lock while they write and read the
  threshold, in every variant. \<open>RELogger::SetLevel\<close> and \<open>RELogger::GetLevel\<close> do
  (a \<^verbatim>\<open>std::lock_guard\<close>). \<open>RELogger_SetLevel\<close> and \<open>RELogger_GetLevel\<close> of the C
  variant assign and return \<open>currentLevel\<close> with no call on the mutex at all, while
  \<open>RELogger_Log\<close> in the same file does lock. The run below starts each variant with
  \<open>Init\<close> and no file.
\<close>

theorem C9_c_threshold_access_without_lock:
  "mutex_log (snd (RELogger_Init None (c_initial, w0))) = []
   \<and> currentLevel (fst (RELogger_SetLevel LogLevel_Warn (RELogger_Init None (c_initial, w0))))
       = LogLevel_Warn
   \<and> mutex_log (snd (RELogger_SetLevel LogLevel_Warn (RELogger_Init None (c_initial, w0)))) = []
   \<and> fst (RELogger_GetLevel (RELogger_Init None (c_initial, w0))) = LogLevel_Trace
   \<and> mutex_log (snd (snd (RELogger_GetLevel (RELogger_Init None (c_initial, w0))))) = []
   \<and> mutex_log (snd (RELogger_Log True LogLevel_Warn ''low disk'' ''x.c'' 42 ''save''
                        (RELogger_Init None (c_initial, w0)))) = [MLock, MUnlock]
   \<and> mutex_log (snd (Init [] (cpp_initial, w0))) = [MLock, MUnlock]
   \<and> mutex_log (snd (SetLevel LogLevel_Warn (Init [] (cpp_initial, w0))))
       = [MLock, MUnlock, MLock, MUnlock]
   \<and> mutex_log (snd (snd (GetLevel (Init [] (cpp_initial, w0)))))
       = [MLock, MUnlock, MLock, MUnlock]"
proof -
  have m: "mutex_log w0 = []" by (simp add: w0_def)
  show ?thesis
    by (simp add: c_Init_no_path cpp_Init_no_path c_SetLevel cpp_SetLevel c_GetLevel cpp_GetLevel
        c_Log_console m c_initial_def cpp_initial_def LogLevel_defs)
qed

subsection \<open>C10: what each operation leaves alone\<close>

text \<open>
  C10. \<open>Log\<close> and \<open>GetLevel\<close> return the logger's state as they found it, in both
  variants and for every input; \<open>GetLevel\<close> returns the threshold and \<open>Log\<close> only appends
  to standard output, to standard error and to the files on disk. \<open>Init\<close> and \<open>Shutdown\<close>
  leave the threshold as it is (only \<open>SetLevel\<close> sets it), and \<open>SetLevel\<close> leaves the
  file sink as it is.
\<close>

theorem C10_frame:
  "fst (RELogger_Log DEBUG level message file line func (s, w)) = s
   \<and> fst (Log NDEBUG level message file line func (s', w)) = s'
   \<and> RELogger_GetLevel (s, w) = (currentLevel s, s, w)
   \<and> fst (GetLevel (s', w)) = cpp_currentLevel s' \<and> fst (snd (GetLevel (s', w))) = s'
   \<and> prefix (out_chars w) (out_chars (snd (RELogger_Log DEBUG level message file line func (s, w))))
   \<and> prefix (err_chars w) (err_chars (snd (RELogger_Log DEBUG level message file line func (s, w))))
   \<and> (\<forall>p. prefix (file_content w p)
              (file_content (snd (RELogger_Log DEBUG level message file line func (s, w))) p))
   \<and> prefix (out_chars w) (out_chars (snd (Log NDEBUG level message file line func (s', w))))
   \<and> prefix (err_chars w) (err_chars (snd (Log NDEBUG level message file line func (s', w))))
   \<and> (\<forall>p. prefix (file_content w p)
              (file_content (snd (Log NDEBUG level message file line func (s', w))) p))
   \<and> currentLevel (fst (RELogger_Init logFilePath (s, w))) = currentLevel s
   \<and> currentLevel (fst (RELogger_Shutdown (s, w))) = currentLevel s
   \<and> cpp_currentLevel (fst (Init path (s', w))) = cpp_currentLevel s'
   \<and> cpp_currentLevel (fst (Shutdown (s', w))) = cpp_currentLevel s'
   \<and> fst (RELogger_SetLevel l (s, w)) = s\<lparr>currentLevel := l\<rparr>
   \<and> fst (SetLevel l (s', w)) = s'\<lparr>cpp_currentLevel := l\<rparr>"
proof -
  have get: "RELogger_GetLevel (s, w) = (currentLevel s, s, w)"
    "fst (GetLevel (s', w)) = cpp_currentLevel s'" "fst (snd (GetLevel (s', w))) = s'"
    by (simp_all add: RELogger_GetLevel_def GetLevel_def Let_def)
  have set: "fst (RELogger_SetLevel l (s, w)) = s\<lparr>currentLevel := l\<rparr>"
    "fst (SetLevel l (s', w)) = s'\<lparr>cpp_currentLevel := l\<rparr>"
    by (simp_all add: RELogger_SetLevel_def SetLevel_def Let_def)
  show ?thesis
    using get set
    by (simp add: c_Log_state cpp_Log_state c_Log_appends cpp_Log_appends
        c_level_frame cpp_level_frame)
qed

theorem C10_frame_witness:
  "fst (RELogger_Log True LogLevel_Error ''disk full'' ''x.c'' 42 ''save''
          (RELogger_Init (Some ''app.log'') (c_initial, w0)))
     = \<lparr>logFile = Some 0, currentLevel = LogLevel_Trace, mutexInitialized = True\<rparr>
   \<and> fst (Log False LogLevel_Error ''disk full'' ''x.c'' 42 ''save''
          (Init ''app.log'' (cpp_initial, w0)))
     = \<lparr>cpp_logFile = \<lparr>of_handle = Some 0, of_fail = False\<rparr>, cpp_currentLevel = LogLevel_Trace\<rparr>"
proof -
  have c: "RELogger_Init (Some ''app.log'') (c_initial, w0)
           = (\<lparr>logFile = Some 0, currentLevel = LogLevel_Trace, mutexInitialized = True\<rparr>,
              snd (fopen_w ''app.log'' w0))"
    by (simp add: c_Init_opened w0_def c_initial_def)
  have p: "Init ''app.log'' (cpp_initial, w0)
           = (\<lparr>cpp_logFile = \<lparr>of_handle = Some 0, of_fail = False\<rparr>, cpp_currentLevel = LogLevel_Trace\<rparr>,
              mutex_call MUnlock (snd (fopen_w ''app.log'' (mutex_call MLock w0))))"
    by (simp add: cpp_Init_opened w0_def cpp_initial_def)
  show ?thesis
    unfolding c p
    using C10_frame [of True LogLevel_Error "''disk full''" "''x.c''" 42 "''save''"
        "\<lparr>logFile = Some 0, currentLevel = LogLevel_Trace, mutexInitialized = True\<rparr>"
        "snd (fopen_w ''app.log'' w0)"]
      C10_frame [of _ _ _ _ _ _ _
        "mutex_call MUnlock (snd (fopen_w ''app.log'' (mutex_call MLock w0)))" False
        "\<lparr>cpp_logFile = \<lparr>of_handle = Some 0, of_fail = False\<rparr>, cpp_currentLevel = LogLevel_Trace\<rparr>"]
    by simp
qed

end
